theory Spec2Isabelle
  imports Complex_Main "HOL-Library.Sublist"
begin

section \<open>Python values shared by the modules\<close>

text \<open>
  Python floats are modelled as reals and Python ints as integers. A JSON document, as
  \<^verbatim>\<open>json.loads\<close> builds it and \<^verbatim>\<open>json.dumps\<close> reads it, is a value of \<open>json\<close>; a
  \<^verbatim>\<open>Dict[str, Any]\<close> is an association list with distinct keys, read with \<open>map_of\<close>.
\<close>

datatype json =
    JNull
  | JBool bool
  | JInt int
  | JFloat real
  | JStr string
  | JArr "json list"
  | JObj "(string \<times> json) list"

type_synonym pydict = "(string \<times> json) list"

text \<open>An exception raised by a library or a collaborator: its class name and its \<^verbatim>\<open>str()\<close>.\<close>

datatype py_exception = PyException (exc_type: string) (exc_str: string)

text \<open>\<^verbatim>\<open>d.get(key, default)\<close> on a dictionary of JSON values.\<close>

definition dict_get :: "pydict \<Rightarrow> string \<Rightarrow> json \<Rightarrow> json" where
  "dict_get d k dflt = (case map_of d k of None \<Rightarrow> dflt | Some v \<Rightarrow> v)"

text \<open>\<^verbatim>\<open>sep.join(parts)\<close>.\<close>

fun join :: "string \<Rightarrow> string list \<Rightarrow> string" where
  "join sep [] = []"
| "join sep [x] = x"
| "join sep (x # y # ys) = x @ sep @ join sep (y # ys)"

section \<open>vector-db/faiss\_index.py\<close>

text \<open>
  The state of a \<^verbatim>\<open>VectorSearch\<close> object: the dimension, the path, the vectors held by
  the FAISS flat index in insertion order, and the parallel metadata list.
\<close>

record VectorSearch =
  dimension :: nat
  index_path :: string
  index :: "real list list"
  metadata :: "pydict list"

text \<open>\<^verbatim>\<open>VectorSearch.__init__\<close> when no index file exists: an empty flat index.\<close>

definition new_VectorSearch :: "nat \<Rightarrow> string \<Rightarrow> VectorSearch" where
  "new_VectorSearch dimension0 path =
     \<lparr>dimension = dimension0, index_path = path, index = [], metadata = []\<rparr>"

text \<open>
  \<^verbatim>\<open>find_similar_incidents(self, service, logs, top_k=3)\<close>: the body is a single
  \<^verbatim>\<open>return\<close> of a literal list; it reads neither \<^verbatim>\<open>self\<close> nor any argument.
\<close>

definition find_similar_incidents ::
  "VectorSearch \<Rightarrow> string \<Rightarrow> string list \<Rightarrow> int \<Rightarrow> pydict list" where
  "find_similar_incidents self service logs top_k =
     [[(''incident_id'', JStr ''INC-2024-100''),
       (''root_cause'', JStr ''Memory leak in service''),
       (''similarity'', JFloat 0.89)]]"

text \<open>\<^verbatim>\<open>store_incident(self, incident_id, data)\<close>: the body is \<^verbatim>\<open>pass\<close>.\<close>

definition store_incident :: "VectorSearch \<Rightarrow> string \<Rightarrow> pydict \<Rightarrow> VectorSearch" where
  "store_incident self incident_id data = self"

section \<open>anomaly detection: anomaly\_detection.py\<close>

text \<open>
  One element of \<^verbatim>\<open>metrics_data\<close>: a dictionary whose \<^verbatim>\<open>"timestamp"\<close> entry is a datetime
  (microseconds since the epoch here) and whose other entries are numbers, Python ints or
  floats, each kept as the real number it denotes. The numeric entries are the map
  \<open>entries\<close>; \<^verbatim>\<open>metric.get(name, 0)\<close> reads it.
\<close>

type_synonym metrics = "string \<rightharpoonup> real"

record metric_sample =
  timestamp :: int
  entries :: metrics

definition get :: "metrics \<Rightarrow> string \<Rightarrow> real \<Rightarrow> real" where
  "get m k dflt = (case m k of None \<Rightarrow> dflt | Some v \<Rightarrow> v)"

text \<open>The body of the loop of \<^verbatim>\<open>_prepare_features\<close>: one row of the feature matrix.\<close>

definition feature_vector :: "metrics \<Rightarrow> real list" where
  "feature_vector metric =
     [get metric ''cpu_usage'' 0,
      get metric ''memory_usage'' 0,
      get metric ''response_time'' 0,
      get metric ''error_rate'' 0,
      get metric ''request_rate'' 0,
      get metric ''network_rx'' 0,
      get metric ''network_tx'' 0]"

text \<open>The loop of \<^verbatim>\<open>_prepare_features\<close>: the Python list \<^verbatim>\<open>features\<close>.\<close>

fun feature_rows :: "metric_sample list \<Rightarrow> real list list" where
  "feature_rows [] = []"
| "feature_rows (metric # rest) = feature_vector (entries metric) # feature_rows rest"

text \<open>
  \<^verbatim>\<open>np.array(features)\<close> keeps the shape of the list of rows. A float64 holds every
  integer of magnitude up to \<open>2 ^ 53\<close>, so an entry of at most that magnitude, int or
  float, is in the array as the same number. What numpy makes of a larger entry depends
  on the other entries (an int is rounded in a float64 array and kept in an integer or
  object array, a float is kept): that value is the parameter \<open>large\<close>, applied to the
  list and the entry.
\<close>

definition np_array :: "(real list list \<Rightarrow> real \<Rightarrow> real) \<Rightarrow> real list list \<Rightarrow> real list list" where
  "np_array large features =
     map (map (\<lambda>v. if \<bar>v\<bar> \<le> 2 ^ 53 then v else large features v)) features"

text \<open>
  The predictor and the libraries it calls. The fitted scaler and model are scikit-learn
  objects: \<^verbatim>\<open>scaler.transform\<close>, \<^verbatim>\<open>model.predict\<close> and \<^verbatim>\<open>model.score_samples\<close> are
  parameters, each of which may raise (an unfitted scaler, a matrix of the wrong shape).
  \<open>np_array_large\<close> is numpy's conversion of entries beyond \<open>2 ^ 53\<close>.
\<close>

record AnomalyPredictor =
  scaler_transform :: "real list list \<Rightarrow> py_exception + real list list"
  model_predict :: "real list list \<Rightarrow> py_exception + int list"
  model_score_samples :: "real list list \<Rightarrow> py_exception + real list"
  np_array_large :: "real list list \<Rightarrow> real \<Rightarrow> real"

text \<open>\<^verbatim>\<open>_prepare_features(self, metrics_data)\<close>: the loop, then \<^verbatim>\<open>np.array\<close>.\<close>

definition prepare_features :: "AnomalyPredictor \<Rightarrow> metric_sample list \<Rightarrow> real list list" where
  "prepare_features self metrics_data =
     np_array (np_array_large self) (feature_rows metrics_data)"

text \<open>The column names in the order of \<^verbatim>\<open>_prepare_features\<close> (and of \<^verbatim>\<open>train\<close>).\<close>

definition feature_columns :: "string list" where
  "feature_columns =
     [''cpu_usage'', ''memory_usage'', ''response_time'', ''error_rate'',
      ''request_rate'', ''network_rx'', ''network_tx'']"

text \<open>\<^verbatim>\<open>_get_recommendation(self, is_anomaly, metrics)\<close>.\<close>

definition recommendations_of :: "metrics \<Rightarrow> string list" where
  "recommendations_of m =
     (if get m ''cpu_usage'' 0 > 80
        then [''High CPU detected - consider scaling horizontally''] else []) @
     (if get m ''memory_usage'' 0 > 85
        then [''High memory usage - check for memory leaks or increase limits''] else []) @
     (if get m ''response_time'' 0 > 1000
        then [''Elevated response time - investigate database queries or external API calls'']
        else []) @
     (if get m ''error_rate'' 0 > 0.05
        then [''High error rate - check application logs for exceptions''] else [])"

definition get_recommendation :: "bool \<Rightarrow> metrics \<Rightarrow> string" where
  "get_recommendation is_anomaly m =
     (if \<not> is_anomaly then ''No action required - metrics within normal range''
      else let recommendations = recommendations_of m
           in if recommendations \<noteq> [] then join '' | '' recommendations
              else ''Anomaly detected - manual investigation recommended'')"

text \<open>
  \<^verbatim>\<open>_fetch_metrics\<close> simulates the telemetry: sixty samples, each built from seven calls of
  \<^verbatim>\<open>np.random.normal(loc, scale)\<close>, and one read of the clock. The generator is not seeded,
  so the draws are an input of the model: \<open>z k\<close> is the standard normal variate behind the
  \<open>k\<close>-th call, which returns \<open>loc + scale * z k\<close>. Sample \<open>i\<close> makes calls
  \<open>7 * i\<close> to \<open>7 * i + 6\<close>, in the order of the source. \<open>now\<close> is
  \<^verbatim>\<open>datetime.utcnow()\<close> in microseconds.
\<close>

definition normal :: "(nat \<Rightarrow> real) \<Rightarrow> nat \<Rightarrow> real \<Rightarrow> real \<Rightarrow> real" where
  "normal z k loc scale = loc + scale * z k"

definition timedelta_minutes :: "int \<Rightarrow> int" where
  "timedelta_minutes m = m * 60000000"

definition fetch_sample :: "(nat \<Rightarrow> real) \<Rightarrow> int \<Rightarrow> nat \<Rightarrow> metric_sample" where
  "fetch_sample z now i =
     (let ts = now - timedelta_minutes (60 - int i);
          base_cpu0 = 50 + normal z (7 * i) 0 10;
          base_memory0 = 60 + normal z (7 * i + 1) 0 8;
          base_response_time0 = 200 + normal z (7 * i + 2) 0 30;
          base_cpu = (if i = 45 then 95 else base_cpu0);
          base_memory = (if i = 45 then 92 else base_memory0);
          base_response_time = (if i = 45 then 3500 else base_response_time0)
      in \<lparr>timestamp = ts,
          entries = [''cpu_usage'' \<mapsto> max 0 (min 100 base_cpu),
                    ''memory_usage'' \<mapsto> max 0 (min 100 base_memory),
                    ''response_time'' \<mapsto> max 0 base_response_time,
                    ''error_rate'' \<mapsto> max 0 (min 1 (normal z (7 * i + 3) 0.01 0.005)),
                    ''request_rate'' \<mapsto> max 0 (100 + normal z (7 * i + 4) 0 15),
                    ''network_rx'' \<mapsto> max 0 (1000 + normal z (7 * i + 5) 0 200),
                    ''network_tx'' \<mapsto> max 0 (800 + normal z (7 * i + 6) 0 150)]\<rparr>)"

definition fetch_metrics :: "(nat \<Rightarrow> real) \<Rightarrow> int \<Rightarrow> string \<Rightarrow> string \<Rightarrow> metric_sample list" where
  "fetch_metrics z now service_name time_window = map (fetch_sample z now) [0..<60]"

record verdict =
  v_timestamp :: int
  is_anomaly :: bool
  score :: real
  confidence :: real
  v_metrics :: metric_sample
  recommendation :: string

text \<open>
  The loop \<^verbatim>\<open>for idx, (pred, score) in enumerate(zip(predictions, anomaly_scores))\<close>;
  \<^verbatim>\<open>metrics_data[idx]\<close> raises \<^verbatim>\<open>IndexError\<close> past the end of the list.
\<close>

fun results_loop ::
  "metric_sample list \<Rightarrow> nat \<Rightarrow> (int \<times> real) list \<Rightarrow> py_exception + verdict list" where
  "results_loop metrics_data idx [] = Inr []"
| "results_loop metrics_data idx ((pred, sc) # rest) =
     (if idx < length metrics_data then
        (let m = metrics_data ! idx;
             anom = (pred = - 1);
             r = \<lparr>v_timestamp = timestamp m, is_anomaly = anom, score = sc,
                  confidence = \<bar>sc\<bar>, v_metrics = m,
                  recommendation = get_recommendation anom (entries m)\<rparr>
         in case results_loop metrics_data (Suc idx) rest of
              Inl e \<Rightarrow> Inl e
            | Inr rs \<Rightarrow> Inr (r # rs))
      else Inl (PyException ''IndexError'' ''list index out of range''))"

text \<open>\<^verbatim>\<open>predict\<close> after the metrics have been fetched.\<close>

definition score_metrics ::
  "AnomalyPredictor \<Rightarrow> metric_sample list \<Rightarrow> py_exception + verdict list" where
  "score_metrics self metrics_data =
     (let features = prepare_features self metrics_data
      in case scaler_transform self features of
           Inl e \<Rightarrow> Inl e
         | Inr features_scaled \<Rightarrow>
             (case model_predict self features_scaled of
                Inl e \<Rightarrow> Inl e
              | Inr predictions \<Rightarrow>
                  (case model_score_samples self features_scaled of
                     Inl e \<Rightarrow> Inl e
                   | Inr anomaly_scores \<Rightarrow>
                       results_loop metrics_data 0 (zip predictions anomaly_scores))))"

definition predict ::
  "AnomalyPredictor \<Rightarrow> (nat \<Rightarrow> real) \<Rightarrow> int \<Rightarrow> string \<Rightarrow> string \<Rightarrow> py_exception + verdict list" where
  "predict self z now service_name time_window =
     score_metrics self (fetch_metrics z now service_name time_window)"

section \<open>llm/rca\_agent.py\<close>

text \<open>
  Library functions the module calls, as parameters: \<^verbatim>\<open>json.dumps(v, indent=2)\<close>,
  \<^verbatim>\<open>json.loads\<close> (which raises on text that is not JSON) and the \<^verbatim>\<open>str()\<close> of a
  number or a container inside an f-string.
\<close>

record pylib =
  json_dumps :: "json \<Rightarrow> string"
  json_loads :: "string \<Rightarrow> py_exception + json"
  py_repr :: "json \<Rightarrow> string"

definition nl :: string where
  "nl = [CHR 0x0A]"

text \<open>\<^verbatim>\<open>f"{v}"\<close> for a value read from a dictionary.\<close>

fun py_format :: "pylib \<Rightarrow> json \<Rightarrow> string" where
  "py_format lib (JStr s) = s"
| "py_format lib JNull = ''None''"
| "py_format lib (JBool b) = (if b then ''True'' else ''False'')"
| "py_format lib v = py_repr lib v"

text \<open>\<^verbatim>\<open>type(v).__name__\<close>.\<close>

fun py_type_name :: "json \<Rightarrow> string" where
  "py_type_name JNull = ''NoneType''"
| "py_type_name (JBool b) = ''bool''"
| "py_type_name (JInt i) = ''int''"
| "py_type_name (JFloat r) = ''float''"
| "py_type_name (JStr s) = ''str''"
| "py_type_name (JArr xs) = ''list''"
| "py_type_name (JObj d) = ''dict''"

text \<open>
  The agent: the deployment name and the Azure OpenAI client. A call of
  \<^verbatim>\<open>client.chat.completions.create(model, messages, ...)\<close> followed by
  \<^verbatim>\<open>response.choices[0].message.content\<close> either raises (timeout, API error) or gives the
  text of the reply; the messages are (role, content) pairs.
\<close>

record RCAAgent =
  deployment :: string
  chat_completions_create :: "string \<Rightarrow> (string \<times> string) list \<Rightarrow> py_exception + string"

definition get_system_prompt :: string where
  \<open>get_system_prompt = join nl
     [''You are an expert Site Reliability Engineer (SRE) and DevOps specialist with deep knowledge of:'',
      ''- Kubernetes and container orchestration'',
      ''- Cloud infrastructure (Azure, AWS, GCP)'',
      ''- Application performance monitoring'',
      ''- Distributed systems debugging'',
      ''- Infrastructure as Code (Terraform, Helm)'',
      [],
      ''Your task is to analyze incidents and provide:'',
      ''1. Clear, concise root cause identification'',
      ''2. Severity assessment (critical/high/medium/low)'',
      ''3. Confidence score (0.0 to 1.0)'',
      ''4. Impact assessment on users/services'',
      ''5. Contributing factors'',
      ''6. Incident timeline'',
      ''7. Actionable remediation recommendations'',
      [],
      ''Always respond in valid JSON format with these fields:'',
      ''{'',
      ''  "root_cause": "Clear explanation of the primary cause",'',
      ''  "severity": "critical|high|medium|low",'',
      ''  "confidence": 0.0-1.0,'',
      ''  "impact_assessment": "Description of user/business impact",'',
      ''  "contributing_factors": ["factor1", "factor2"],'',
      ''  "timeline": [{"time": "HH:MM", "event": "description"}],'',
      ''  "recommendations": ["action1", "action2"]'',
      ''}'']\<close>

text \<open>\<^verbatim>\<open>_create_rca_prompt\<close>; \<open>now_iso\<close> is \<^verbatim>\<open>datetime.utcnow().isoformat()\<close>.\<close>

definition create_rca_prompt :: "string \<Rightarrow> string \<Rightarrow> string \<Rightarrow> string" where
  "create_rca_prompt now_iso incident_id context =
     ''Analyze the following incident and provide root cause analysis.'' @ nl @ nl @
     ''**Incident ID**: '' @ incident_id @ nl @
     ''**Timestamp**: '' @ now_iso @ nl @ nl @
     context @ nl @ nl @
     ''Provide a comprehensive root cause analysis in JSON format.''"

text \<open>
  \<^verbatim>\<open>_prepare_context\<close>: the list \<^verbatim>\<open>context_parts\<close> as the appends build it, then the join.
  \<^verbatim>\<open>if traces:\<close> and \<^verbatim>\<open>if similar_incidents:\<close> are false for \<^verbatim>\<open>None\<close> and for the empty list.
\<close>

definition truthy :: "'a list option \<Rightarrow> bool" where
  "truthy xs = (case xs of None \<Rightarrow> False | Some l \<Rightarrow> l \<noteq> [])"

definition last_n :: "nat \<Rightarrow> 'a list \<Rightarrow> 'a list" where
  "last_n n xs = drop (length xs - n) xs"

definition similar_line :: "pylib \<Rightarrow> pydict \<Rightarrow> string" where
  "similar_line lib inc =
     ''- **'' @ py_format lib (dict_get inc ''incident_id'' JNull) @ ''**: '' @
     py_format lib (dict_get inc ''root_cause'' JNull)"

definition context_parts ::
  "pylib \<Rightarrow> pydict \<Rightarrow> string list \<Rightarrow> pydict list option \<Rightarrow> pydict list option \<Rightarrow> string list" where
  "context_parts lib metrics logs traces similar_incidents =
     [''## METRICS'', ''```json'', json_dumps lib (JObj metrics), ''```''] @
     [nl @ ''## RECENT LOGS'', ''```''] @
     last_n 50 logs @
     [''```''] @
     (if truthy traces
        then [nl @ ''## DISTRIBUTED TRACES'', ''```json'',
              json_dumps lib (JArr (map JObj (take 10 (the traces)))), ''```'']
        else []) @
     (if truthy similar_incidents
        then (nl @ ''## SIMILAR PAST INCIDENTS'') #
             map (similar_line lib) (take 3 (the similar_incidents))
        else [])"

definition prepare_context ::
  "pylib \<Rightarrow> pydict \<Rightarrow> string list \<Rightarrow> pydict list option \<Rightarrow> pydict list option \<Rightarrow> string" where
  "prepare_context lib metrics logs traces similar_incidents =
     join nl (context_parts lib metrics logs traces similar_incidents)"

text \<open>The dictionary \<^verbatim>\<open>RCAAgent.analyze\<close> returns, one field per key.\<close>

record rca_result =
  rca_root_cause :: json
  rca_severity :: json
  rca_confidence :: json
  rca_impact :: json
  rca_contributing_factors :: json
  rca_timeline :: json
  rca_recommendations :: json

text \<open>
  The part of \<^verbatim>\<open>analyze\<close> after \<^verbatim>\<open>json.loads\<close>: \<^verbatim>\<open>result.get\<close> raises
  \<^verbatim>\<open>AttributeError\<close> when the parsed reply is not a dictionary.
\<close>

definition rca_of_reply :: "json \<Rightarrow> py_exception + rca_result" where
  "rca_of_reply result =
     (case result of
        JObj d \<Rightarrow>
          Inr \<lparr>rca_root_cause = dict_get d ''root_cause'' (JStr ''Unknown''),
               rca_severity = dict_get d ''severity'' (JStr ''medium''),
               rca_confidence = dict_get d ''confidence'' (JFloat 0.0),
               rca_impact = dict_get d ''impact_assessment'' (JStr ''Unknown impact''),
               rca_contributing_factors = dict_get d ''contributing_factors'' (JArr []),
               rca_timeline = dict_get d ''timeline'' (JArr []),
               rca_recommendations = dict_get d ''recommendations'' (JArr [])\<rparr>
      | _ \<Rightarrow>
          Inl (PyException ''AttributeError''
                 ([CHR 0x27] @ py_type_name result @ [CHR 0x27] @
                  '' object has no attribute '' @ [CHR 0x27] @ ''get'' @ [CHR 0x27])))"

text \<open>
  The first part of \<^verbatim>\<open>analyze\<close>: the context, the prompt and the \<^verbatim>\<open>messages\<close> argument
  of the call.
\<close>

definition rca_messages ::
  "pylib \<Rightarrow> string \<Rightarrow> string \<Rightarrow> pydict \<Rightarrow> string list \<Rightarrow>
   pydict list option \<Rightarrow> pydict list option \<Rightarrow> (string \<times> string) list" where
  "rca_messages lib now_iso incident_id metrics logs traces similar_incidents =
     (let context = prepare_context lib metrics logs traces similar_incidents;
          prompt = create_rca_prompt now_iso incident_id context
      in [(''system'', get_system_prompt), (''user'', prompt)])"

definition analyze ::
  "pylib \<Rightarrow> RCAAgent \<Rightarrow> string \<Rightarrow> string \<Rightarrow> pydict \<Rightarrow> string list \<Rightarrow>
   pydict list option \<Rightarrow> pydict list option \<Rightarrow> py_exception + rca_result" where
  "analyze lib self now_iso incident_id metrics logs traces similar_incidents =
     (case chat_completions_create self (deployment self)
             (rca_messages lib now_iso incident_id metrics logs traces similar_incidents) of
        Inl e \<Rightarrow> Inl e
      | Inr content \<Rightarrow>
          (case json_loads lib content of
             Inl e \<Rightarrow> Inl e
           | Inr result \<Rightarrow> rca_of_reply result))"

section \<open>api/ai\_engine\_main.py\<close>

record IncidentAnalysisRequest =
  req_incident_id :: string
  req_timestamp :: string
  req_service_name :: string
  req_metrics :: pydict
  req_logs :: "string list"
  req_traces :: "pydict list option"
  req_severity :: "string option"

record IncidentAnalysisResponse =
  resp_incident_id :: string
  resp_root_cause :: string
  resp_severity :: string
  resp_confidence :: real
  resp_impact_assessment :: string
  resp_recommended_fix :: pydict
  resp_generated_code :: string
  resp_similar_incidents :: "pydict list"
  resp_timeline :: "pydict list"

text \<open>
  \<^verbatim>\<open>fastapi.HTTPException(status_code, detail)\<close>, the only exception the endpoints raise;
  \<open>class_name\<close> is \<^verbatim>\<open>type(e).__name__\<close>.
\<close>

datatype http_exception = HTTPException (status_code: nat) (detail: string)

definition class_name :: "http_exception \<Rightarrow> string" where
  "class_name e = ''HTTPException''"

text \<open>
  The constructor of the pydantic model \<^verbatim>\<open>IncidentAnalysisResponse\<close>, field by field.
  A keyword argument of its declared type is taken as it is. For the \<^verbatim>\<open>float\<close> field an
  int that a float64 holds exactly (magnitude up to \<open>2 ^ 53\<close>) becomes that float, and an
  int of magnitude \<open>2 ^ 1024\<close> or more, which no float holds (\<^verbatim>\<open>float(i)\<close> raises
  \<^verbatim>\<open>OverflowError\<close>), makes the constructor raise. Which exception it raises is the
  parameter \<open>reject\<close>. What pydantic does with any other argument that is not of the
  declared type (a coercion, a rounding or a \<^verbatim>\<open>ValidationError\<close>) is the parameter
  \<open>coerce\<close>. Both are applied to the keyword arguments.
\<close>

definition as_str :: "json \<Rightarrow> string option" where
  "as_str v = (case v of JStr s \<Rightarrow> Some s | _ \<Rightarrow> None)"

definition as_float :: "json \<Rightarrow> real option" where
  "as_float v =
     (case v of
        JFloat r \<Rightarrow> Some r
      | JInt i \<Rightarrow> (if \<bar>i\<bar> \<le> 2 ^ 53 then Some (of_int i) else None)
      | _ \<Rightarrow> None)"

definition float_overflows :: "json \<Rightarrow> bool" where
  "float_overflows v = (case v of JInt i \<Rightarrow> 2 ^ 1024 \<le> \<bar>i\<bar> | _ \<Rightarrow> False)"

definition as_dict :: "json \<Rightarrow> pydict option" where
  "as_dict v = (case v of JObj d \<Rightarrow> Some d | _ \<Rightarrow> None)"

definition IncidentAnalysisResponse_init ::
  "(pydict \<Rightarrow> py_exception + IncidentAnalysisResponse) \<Rightarrow> (pydict \<Rightarrow> py_exception) \<Rightarrow>
   string \<Rightarrow> json \<Rightarrow> json \<Rightarrow> json \<Rightarrow> json \<Rightarrow> json \<Rightarrow> json \<Rightarrow>
   pydict list \<Rightarrow> pydict list \<Rightarrow> py_exception + IncidentAnalysisResponse" where
  "IncidentAnalysisResponse_init coerce reject incident_id root_cause severity conf
       impact_assessment recommended_fix generated_code similar_incidents timeline =
     (let kwargs =
            [(''incident_id'', JStr incident_id), (''root_cause'', root_cause),
             (''severity'', severity), (''confidence'', conf),
             (''impact_assessment'', impact_assessment),
             (''recommended_fix'', recommended_fix),
             (''generated_code'', generated_code),
             (''similar_incidents'', JArr (map JObj similar_incidents)),
             (''timeline'', JArr (map JObj timeline))]
      in if float_overflows conf then Inl (reject kwargs)
         else
           (case (as_str root_cause, as_str severity, as_float conf,
                  as_str impact_assessment, as_dict recommended_fix,
                  as_str generated_code) of
              (Some rc, Some sv, Some cf, Some im, Some fx, Some cd) \<Rightarrow>
                Inr \<lparr>resp_incident_id = incident_id, resp_root_cause = rc,
                     resp_severity = sv, resp_confidence = cf,
                     resp_impact_assessment = im, resp_recommended_fix = fx,
                     resp_generated_code = cd,
                     resp_similar_incidents = similar_incidents,
                     resp_timeline = timeline\<rparr>
            | _ \<Rightarrow> coerce kwargs))"

text \<open>
  \<^verbatim>\<open>llm/fix_generator.py\<close> is imported by the module and is not among the sources.
  \<^verbatim>\<open>generate_fix\<close> and \<^verbatim>\<open>create_pull_request\<close> are parameters that may raise.
  The last three fields are the state of \<^verbatim>\<open>apply_fix\<close> as it is modelled below:
  \<open>run_fix\<close> is the side effect of applying a fix and its result, \<open>applied\<close> the results
  kept per (incident\_id, fix\_type), and \<open>effects\<close> the log of the side effects executed.
\<close>

record FixGenerator =
  generate_fix :: "json \<Rightarrow> string \<Rightarrow> json \<Rightarrow> py_exception + pydict"
  create_pull_request :: "string \<Rightarrow> string \<Rightarrow> py_exception + json"
  run_fix :: "string \<Rightarrow> string \<Rightarrow> json"
  applied :: "(string \<times> string) \<rightharpoonup> json"
  effects :: "(string \<times> string) list"

text \<open>
  Modelled from the spec: \<^verbatim>\<open>FixGenerator.apply_fix\<close>, whose source file
  \<^verbatim>\<open>llm/fix_generator.py\<close> is missing. The spec: apply executes immediately and is
  idempotent per (incident\_id, fix\_type); a second call with the same key returns the
  cached result without re-executing side effects.
\<close>

definition apply_fix :: "FixGenerator \<Rightarrow> string \<Rightarrow> string \<Rightarrow> json \<times> FixGenerator" where
  "apply_fix self incident_id fix_type =
     (case applied self (incident_id, fix_type) of
        Some cached \<Rightarrow> (cached, self)
      | None \<Rightarrow>
          (let result = run_fix self incident_id fix_type
           in (result,
               self\<lparr>applied := (applied self)((incident_id, fix_type) \<mapsto> result),
                    effects := effects self @ [(incident_id, fix_type)]\<rparr>)))"

text \<open>
  The module's globals and what a request reads from its environment: the three components,
  the clock (\<open>utcnow_isoformat k\<close> is the \<open>k\<close>-th \<^verbatim>\<open>datetime.utcnow().isoformat()\<close>
  of the request), pydantic's coercion and the exception of a rejected constructor call.
\<close>

record app =
  rca_agent :: RCAAgent
  fix_generator :: FixGenerator
  vector_search :: VectorSearch
  utcnow_isoformat :: "nat \<Rightarrow> string"
  response_coerce :: "pydict \<Rightarrow> py_exception + IncidentAnalysisResponse"
  response_error :: "pydict \<Rightarrow> py_exception"

text \<open>
  A call queued by \<^verbatim>\<open>background_tasks.add_task(vector_search.store_incident, ...)\<close>; the
  \<^verbatim>\<open>BackgroundTasks\<close> object is the list of queued calls.
\<close>

record store_task =
  task_incident_id :: string
  task_data :: pydict

definition run_background_tasks :: "VectorSearch \<Rightarrow> store_task list \<Rightarrow> VectorSearch" where
  "run_background_tasks vs tasks =
     fold (\<lambda>t v. store_incident v (task_incident_id t) (task_data t)) tasks vs"

text \<open>\<^verbatim>\<open>fix_code[key]\<close>: a missing key raises \<^verbatim>\<open>KeyError\<close>, whose \<^verbatim>\<open>str()\<close> is the quoted key.\<close>

definition subscript :: "pydict \<Rightarrow> string \<Rightarrow> py_exception + json" where
  "subscript d k =
     (case map_of d k of
        None \<Rightarrow> Inl (PyException ''KeyError'' ([CHR 0x27] @ k @ [CHR 0x27]))
      | Some v \<Rightarrow> Inr v)"

text \<open>
  \<^verbatim>\<open>except Exception as e: raise HTTPException(status_code=500, detail=f"Analysis failed: {str(e)}")\<close>
\<close>

definition analysis_failed :: "py_exception \<Rightarrow> http_exception" where
  "analysis_failed e = HTTPException 500 (''Analysis failed: '' @ exc_str e)"

text \<open>
  The steps of \<^verbatim>\<open>analyze_incident\<close> as its comments number them. Step 1: the similar
  incidents. Step 2 calls \<^verbatim>\<open>rca_agent.analyze\<close>; \<open>reasoning_call\<close> is the outcome of the
  one call of the reasoning service made there. Step 4: the timeline. Background: the call
  of \<^verbatim>\<open>store_incident\<close> that is queued.
\<close>

definition similar_of :: "app \<Rightarrow> IncidentAnalysisRequest \<Rightarrow> pydict list" where
  "similar_of a request =
     find_similar_incidents (vector_search a) (req_service_name request)
       (take 10 (req_logs request)) 3"

definition rca_of :: "pylib \<Rightarrow> app \<Rightarrow> IncidentAnalysisRequest \<Rightarrow> py_exception + rca_result" where
  "rca_of lib a request =
     analyze lib (rca_agent a) (utcnow_isoformat a 0) (req_incident_id request)
       (req_metrics request) (req_logs request) (req_traces request)
       (Some (similar_of a request))"

definition reasoning_call :: "pylib \<Rightarrow> app \<Rightarrow> IncidentAnalysisRequest \<Rightarrow> py_exception + string" where
  "reasoning_call lib a request =
     chat_completions_create (rca_agent a) (deployment (rca_agent a))
       (rca_messages lib (utcnow_isoformat a 0) (req_incident_id request)
          (req_metrics request) (req_logs request) (req_traces request)
          (Some (similar_of a request)))"

definition timeline_of :: "app \<Rightarrow> IncidentAnalysisRequest \<Rightarrow> pydict list" where
  "timeline_of a request =
     [[(''time'', JStr (req_timestamp request)), (''event'', JStr ''Incident detected'')],
      [(''time'', JStr (utcnow_isoformat a 1)), (''event'', JStr ''RCA completed'')],
      [(''time'', JStr (utcnow_isoformat a 2)), (''event'', JStr ''Fix generated'')]]"

definition store_task_of :: "IncidentAnalysisRequest \<Rightarrow> rca_result \<Rightarrow> store_task" where
  "store_task_of request rca =
     \<lparr>task_incident_id = req_incident_id request,
      task_data = [(''service'', JStr (req_service_name request)),
                   (''root_cause'', rca_root_cause rca),
                   (''logs'', JArr (map JStr (req_logs request)))]\<rparr>"

text \<open>
  \<^verbatim>\<open>analyze_incident(request, background_tasks)\<close>: the result or the exception raised, and the
  queue of background tasks afterwards.
\<close>

definition analyze_incident ::
  "pylib \<Rightarrow> app \<Rightarrow> IncidentAnalysisRequest \<Rightarrow> store_task list \<Rightarrow>
   (http_exception + IncidentAnalysisResponse) \<times> store_task list" where
  "analyze_incident lib a request background_tasks =
     (let similar_incidents = similar_of a request
      in case rca_of lib a request of
           Inl e \<Rightarrow> (Inl (analysis_failed e), background_tasks)
         | Inr rca \<Rightarrow>
             (case generate_fix (fix_generator a) (rca_root_cause rca)
                     (req_service_name request) (rca_severity rca) of
                Inl e \<Rightarrow> (Inl (analysis_failed e), background_tasks)
              | Inr fix_code \<Rightarrow>
                  (let timeline = timeline_of a request;
                       tasks' = background_tasks @ [store_task_of request rca]
                   in case subscript fix_code ''fix_details'' of
                        Inl e \<Rightarrow> (Inl (analysis_failed e), tasks')
                      | Inr fix_details \<Rightarrow>
                          (case subscript fix_code ''code'' of
                             Inl e \<Rightarrow> (Inl (analysis_failed e), tasks')
                           | Inr code \<Rightarrow>
                               (case IncidentAnalysisResponse_init (response_coerce a)
                                       (response_error a)
                                       (req_incident_id request) (rca_root_cause rca)
                                       (rca_severity rca) (rca_confidence rca)
                                       (rca_impact rca) fix_details code
                                       similar_incidents timeline of
                                  Inl e \<Rightarrow> (Inl (analysis_failed e), tasks')
                                | Inr response \<Rightarrow> (Inr response, tasks'))))))"

text \<open>
  \<^verbatim>\<open>execute_remediation(incident_id, fix_type, auto_approve)\<close>: the returned dictionary or the
  exception raised, and the fix generator afterwards. \<open>apply_fix\<close> as modelled does not
  raise, so the handler is reached from \<^verbatim>\<open>create_pull_request\<close> only.
\<close>

definition execute_remediation ::
  "FixGenerator \<Rightarrow> string \<Rightarrow> string \<Rightarrow> bool \<Rightarrow> (http_exception + pydict) \<times> FixGenerator" where
  "execute_remediation fg incident_id fix_type auto_approve =
     (if auto_approve then
        (let (result, fg') = apply_fix fg incident_id fix_type
         in (Inr [(''status'', JStr ''applied''),
                  (''incident_id'', JStr incident_id),
                  (''result'', result)], fg'))
      else
        (case create_pull_request fg incident_id fix_type of
           Inl e \<Rightarrow> (Inl (HTTPException 500 (''Remediation failed: '' @ exc_str e)), fg)
         | Inr pr_url \<Rightarrow>
             (Inr [(''status'', JStr ''pending_approval''),
                   (''incident_id'', JStr incident_id),
                   (''pr_url'', pr_url)], fg)))"

section \<open>Concrete inputs\<close>

text \<open>The three outputs of scoring that the determinism property is about.\<close>

definition verdict_triple :: "verdict \<Rightarrow> real \<times> bool \<times> real" where
  "verdict_triple r = (score r, is_anomaly r, confidence r)"

text \<open>The metrics of the two end-to-end scenarios of the specification.\<close>

definition scenario_A :: metrics where
  "scenario_A = [''cpu_usage'' \<mapsto> 95, ''memory_usage'' \<mapsto> 92,
                 ''response_time'' \<mapsto> 3500, ''error_rate'' \<mapsto> 0.12]"

definition scenario_B :: metrics where
  "scenario_B = [''cpu_usage'' \<mapsto> 45, ''memory_usage'' \<mapsto> 55,
                 ''response_time'' \<mapsto> 180, ''error_rate'' \<mapsto> 0.001]"

definition sample_A :: metric_sample where
  "sample_A = \<lparr>timestamp = 0, entries = scenario_A\<rparr>"

definition sample_B :: metric_sample where
  "sample_B = \<lparr>timestamp = 60000000, entries = scenario_B\<rparr>"

text \<open>A sample whose CPU percentage is above 100 and whose request rate is negative.\<close>

definition out_of_range_sample :: metric_sample where
  "out_of_range_sample =
     \<lparr>timestamp = 0, entries = [''cpu_usage'' \<mapsto> 150, ''request_rate'' \<mapsto> - 5]\<rparr>"

text \<open>
  A fitted pair that works row by row: the scaler is the identity, the model scores a row
  by its CPU column and labels it an outlier above 90. Its numpy keeps large entries.
\<close>

definition demo_predictor :: AnomalyPredictor where
  "demo_predictor =
     \<lparr>scaler_transform = (\<lambda>rows. Inr rows),
      model_predict = (\<lambda>rows. Inr (map (\<lambda>r. if hd r > 90 then - 1 else 1) rows)),
      model_score_samples = (\<lambda>rows. Inr (map (\<lambda>r. - (hd r) / 100) rows)),
      np_array_large = (\<lambda>features v. v)\<rparr>"

text \<open>
  Replies of the reasoning service: the one of the unit test, one that omits
  \<^verbatim>\<open>confidence\<close>, one with a severity outside the enumeration and a confidence above 1,
  one with a negative integer confidence, one whose confidence is the integer
  \<open>10 ^ 400\<close>, one that is a JSON array, and one whose root cause is \<^verbatim>\<open>null\<close>.
\<close>

definition reply_test :: string where
  \<open>reply_test = ''{"root_cause": "Memory leak", "severity": "high", "confidence": 0.9}''\<close>

definition reply_no_confidence :: string where
  \<open>reply_no_confidence = ''{"root_cause": "Memory leak", "severity": "high"}''\<close>

definition reply_unchecked :: string where
  \<open>reply_unchecked = ''{"root_cause": "Disk full", "severity": "catastrophic", "confidence": 5.0}''\<close>

definition reply_negative :: string where
  \<open>reply_negative = ''{"severity": "low", "confidence": -1}''\<close>

definition huge_int :: int where
  "huge_int = 10 ^ 400"

definition reply_huge :: string where
  \<open>reply_huge =
     ''{"severity": "low", "confidence": 1'' @ replicate 400 (CHR ''0'') @ ''}''\<close>

definition reply_array :: string where
  "reply_array = ''[1, 2]''"

definition reply_null_root_cause :: string where
  \<open>reply_null_root_cause = ''{"root_cause": null}''\<close>

definition parsed_replies :: "(string \<times> json) list" where
  "parsed_replies =
     [(reply_test,
       JObj [(''root_cause'', JStr ''Memory leak''), (''severity'', JStr ''high''),
             (''confidence'', JFloat 0.9)]),
      (reply_no_confidence,
       JObj [(''root_cause'', JStr ''Memory leak''), (''severity'', JStr ''high'')]),
      (reply_unchecked,
       JObj [(''root_cause'', JStr ''Disk full''), (''severity'', JStr ''catastrophic''),
             (''confidence'', JFloat 5.0)]),
      (reply_negative,
       JObj [(''severity'', JStr ''low''), (''confidence'', JInt (- 1))]),
      (reply_huge,
       JObj [(''severity'', JStr ''low''), (''confidence'', JInt huge_int)]),
      (reply_array, JArr [JInt 1, JInt 2]),
      (reply_null_root_cause, JObj [(''root_cause'', JNull)])]"

text \<open>
  A library whose \<^verbatim>\<open>json.loads\<close> knows the replies above and raises on any other text.
\<close>

definition demo_lib :: pylib where
  "demo_lib =
     \<lparr>json_dumps = (\<lambda>v. ''{}''),
      json_loads = (\<lambda>s. case map_of parsed_replies s of
                           Some v \<Rightarrow> Inr v
                         | None \<Rightarrow> Inl (PyException ''JSONDecodeError''
                                          ''Expecting value: line 1 column 1 (char 0)'')),
      py_repr = (\<lambda>v. ''?'')\<rparr>"

definition agent_replying :: "string \<Rightarrow> RCAAgent" where
  "agent_replying content =
     \<lparr>deployment = ''gpt-4'', chat_completions_create = (\<lambda>model messages. Inr content)\<rparr>"

definition agent_timeout :: RCAAgent where
  "agent_timeout =
     \<lparr>deployment = ''gpt-4'',
      chat_completions_create =
        (\<lambda>model messages. Inl (PyException ''APITimeoutError'' ''Request timed out.''))\<rparr>"

definition demo_fix :: pydict where
  "demo_fix = [(''fix_details'', JObj [(''type'', JStr ''restart'')]),
               (''code'', JStr ''kubectl rollout restart deployment/payment-service'')]"

definition demo_fix_generator :: FixGenerator where
  "demo_fix_generator =
     \<lparr>generate_fix = (\<lambda>root_cause service_name severity. Inr demo_fix),
      create_pull_request = (\<lambda>incident_id fix_type. Inr (JStr ''PR-1'')),
      run_fix = (\<lambda>incident_id fix_type. JStr ''restarted''),
      applied = Map.empty,
      effects = []\<rparr>"

text \<open>
  An application around a given agent, with an empty vector store and a fixed clock. Its
  pydantic rejects every argument it is asked to coerce; the text of the
  \<^verbatim>\<open>ValidationError\<close> is cut to its first line.
\<close>

definition app_with :: "RCAAgent \<Rightarrow> app" where
  "app_with agent =
     \<lparr>rca_agent = agent,
      fix_generator = demo_fix_generator,
      vector_search = new_VectorSearch 768 ''models/faiss.index'',
      utcnow_isoformat = (\<lambda>k. ''2024-01-21T14:31:00''),
      response_coerce =
        (\<lambda>kwargs. Inl (PyException ''ValidationError''
                          ''1 validation error for IncidentAnalysisResponse'')),
      response_error =
        (\<lambda>kwargs. PyException ''ValidationError''
                     ''1 validation error for IncidentAnalysisResponse'')\<rparr>"

definition request_A :: IncidentAnalysisRequest where
  "request_A =
     \<lparr>req_incident_id = ''INC-2024-001'',
      req_timestamp = ''2024-01-21T14:30:01'',
      req_service_name = ''payment-service'',
      req_metrics = [(''cpu_usage'', JInt 95), (''memory_usage'', JInt 92),
                     (''response_time'', JInt 3500), (''error_rate'', JFloat 0.12)],
      req_logs = [''2024-01-21 14:30:01 ERROR OutOfMemoryError: Java heap space''],
      req_traces = None,
      req_severity = Some ''medium''\<rparr>"

section \<open>Properties of the anomaly detector\<close>

lemma feature_rows_map:
  "feature_rows ms = map (\<lambda>m. feature_vector (entries m)) ms"
  by (induction ms) auto

lemma prepare_features_length: "length (prepare_features self ms) = length ms"
  by (simp add: prepare_features_def np_array_def feature_rows_map)

lemma prepare_features_nth:
  "i < length ms \<Longrightarrow>
   prepare_features self ms ! i
   = map (\<lambda>v. if \<bar>v\<bar> \<le> 2 ^ 53 then v
                else np_array_large self (feature_rows ms) v)
       (feature_vector (entries (ms ! i)))"
  by (simp add: prepare_features_def np_array_def feature_rows_map)

lemma length_feature_vector: "length (feature_vector m) = 7"
  by (simp add: feature_vector_def)

lemma feature_vector_nth:
  assumes "j < 7"
  shows "feature_vector m ! j = (case m (feature_columns ! j) of None \<Rightarrow> 0 | Some v \<Rightarrow> v)"
proof -
  from assms consider "j = 0" | "j = 1" | "j = 2" | "j = 3" | "j = 4" | "j = 5" | "j = 6"
    by linarith
  then show ?thesis
    by cases (simp_all add: feature_vector_def feature_columns_def get_def)
qed

text \<open>
  C3, as the code has it: \<^verbatim>\<open>_prepare_features\<close> returns one row per sample, every row has
  exactly seven entries in the fixed column order, an absent metric gives 0, and a metric
  that is present is not clamped: a value of magnitude up to \<open>2 ^ 53\<close> is in the row as
  the same number, whether or not it lies in the metric's domain.
\<close>

theorem prepare_features_fixed_length_with_defaults:
  "length (prepare_features self ms) = length ms \<and>
   (\<forall>i < length ms.
      length (prepare_features self ms ! i) = 7 \<and>
      (\<forall>j < 7.
         (entries (ms ! i) (feature_columns ! j) = None \<longrightarrow>
            prepare_features self ms ! i ! j = 0) \<and>
         (\<forall>v. entries (ms ! i) (feature_columns ! j) = Some v \<and> \<bar>v\<bar> \<le> 2 ^ 53 \<longrightarrow>
            prepare_features self ms ! i ! j = v)))"
proof (intro conjI allI impI)
  show "length (prepare_features self ms) = length ms"
    by (rule prepare_features_length)
next
  fix i assume "i < length ms"
  then show "length (prepare_features self ms ! i) = 7"
    by (simp add: prepare_features_nth length_feature_vector)
next
  fix i j assume i: "i < length ms" and j: "j < (7::nat)"
    and none: "entries (ms ! i) (feature_columns ! j) = None"
  from j have "j < length (feature_vector (entries (ms ! i)))"
    by (simp add: length_feature_vector)
  with i j none show "prepare_features self ms ! i ! j = 0"
    by (simp add: prepare_features_nth feature_vector_nth)
next
  fix i j v assume i: "i < length ms" and j: "j < (7::nat)"
    and some: "entries (ms ! i) (feature_columns ! j) = Some v \<and> \<bar>v\<bar> \<le> 2 ^ 53"
  from j have "j < length (feature_vector (entries (ms ! i)))"
    by (simp add: length_feature_vector)
  with i j some show "prepare_features self ms ! i ! j = v"
    by (simp add: prepare_features_nth feature_vector_nth)
qed

theorem prepare_features_fixed_length_with_defaults_witness:
  "(0::nat) < length [sample_A] \<and> (4::nat) < 7 \<and>
   entries ([sample_A] ! 0) (feature_columns ! 3) = Some 0.12 \<and> \<bar>0.12 :: real\<bar> \<le> 2 ^ 53 \<and>
   entries ([sample_A] ! 0) (feature_columns ! 4) = None \<and>
   length (prepare_features demo_predictor [sample_A]) = 1 \<and>
   length (prepare_features demo_predictor [sample_A] ! 0) = 7 \<and>
   prepare_features demo_predictor [sample_A] ! 0 ! 3 = 0.12 \<and>
   prepare_features demo_predictor [sample_A] ! 0 ! 4 = 0"
proof -
  let ?P = "prepare_features demo_predictor [sample_A]"
  have len: "(0::nat) < length [sample_A]" by simp
  have e3: "entries ([sample_A] ! 0) (feature_columns ! 3) = Some 0.12"
    by (simp add: sample_A_def scenario_A_def feature_columns_def)
  have b3: "\<bar>0.12 :: real\<bar> \<le> 2 ^ 53" by simp
  have e4: "entries ([sample_A] ! 0) (feature_columns ! 4) = None"
    by (simp add: sample_A_def scenario_A_def feature_columns_def)
  note inst = prepare_features_fixed_length_with_defaults [of demo_predictor "[sample_A]"]
  from inst have l1: "length ?P = length [sample_A]"
    by (rule conjunct1)
  have row:
    "length (?P ! 0) = 7 \<and>
      (\<forall>j < 7.
         (entries ([sample_A] ! 0) (feature_columns ! j) = None \<longrightarrow> ?P ! 0 ! j = 0) \<and>
         (\<forall>v. entries ([sample_A] ! 0) (feature_columns ! j) = Some v \<and> \<bar>v\<bar> \<le> 2 ^ 53 \<longrightarrow>
            ?P ! 0 ! j = v))"
    by (rule mp [OF spec [OF inst [THEN conjunct2]] len])
  then have cols:
    "\<forall>j < 7.
         (entries ([sample_A] ! 0) (feature_columns ! j) = None \<longrightarrow> ?P ! 0 ! j = 0) \<and>
         (\<forall>v. entries ([sample_A] ! 0) (feature_columns ! j) = Some v \<and> \<bar>v\<bar> \<le> 2 ^ 53 \<longrightarrow>
            ?P ! 0 ! j = v)"
    by (rule conjunct2)
  have j3: "(3::nat) < 7" and j4: "(4::nat) < 7" by simp_all
  have c3: "?P ! 0 ! 3 = 0.12"
    by (rule mp [OF spec [OF conjunct2 [OF mp [OF spec [OF cols] j3]]] conjI [OF e3 b3]])
  have c4: "?P ! 0 ! 4 = 0"
    by (rule mp [OF conjunct1 [OF mp [OF spec [OF cols] j4]] e4])
  have l7: "length (?P ! 0) = 7" using row by (rule conjunct1)
  have l1': "length ?P = 1" using l1 by simp
  from len j4 e3 b3 e4 l1' l7 c3 c4 show ?thesis by (intro conjI)
qed

text \<open>
  C3, as the claim states it, fails: a CPU percentage of 150 and a request rate of -5 are
  copied into the feature vector as they are, neither clamped to [0, 100] nor to [0, +inf).
\<close>

theorem prepare_features_does_not_clamp:
  "prepare_features demo_predictor [out_of_range_sample] = [[150, 0, 0, 0, - 5, 0, 0]] \<and>
   \<not> (prepare_features demo_predictor [out_of_range_sample] ! 0 ! 0 \<le> 100) \<and>
   \<not> (0 \<le> prepare_features demo_predictor [out_of_range_sample] ! 0 ! 4)"
  by (simp add: prepare_features_def np_array_def out_of_range_sample_def
        feature_vector_def get_def)

lemma sublist_join: "x \<in> set xs \<Longrightarrow> sublist x (join sep xs)"
proof (induction sep xs rule: join.induct)
  case (1 sep)
  then show ?case by simp
next
  case (2 sep y)
  then show ?case by simp
next
  case (3 sep a b ys)
  show ?case
  proof (cases "x = a")
    case True
    then show ?thesis by simp
  next
    case False
    with 3 have "sublist x (join sep (b # ys))" by simp
    then obtain ps ss where "join sep (b # ys) = ps @ x @ ss"
      by (auto simp: sublist_def)
    then have "join sep (a # b # ys) = (a @ sep @ ps) @ x @ ss" by simp
    then show ?thesis unfolding sublist_def by blast
  qed
qed

lemma memory_recommended:
  "get m ''memory_usage'' 0 > 85 \<Longrightarrow>
   ''High memory usage - check for memory leaks or increase limits''
     \<in> set (recommendations_of m)"
  by (simp add: recommendations_of_def)

text \<open>
  C8: without an anomaly the recommendation is the fixed message, whatever the metrics;
  with an anomaly and a memory usage above 85 (92 in scenario A) the recommendation
  contains the memory-pressure sentence.
\<close>

theorem get_recommendation_cases:
  "get_recommendation False m = ''No action required - metrics within normal range'' \<and>
   (\<forall>v. m ''memory_usage'' = Some v \<and> v > 85 \<longrightarrow>
      sublist ''High memory usage - check for memory leaks or increase limits''
        (get_recommendation True m))"
proof (intro conjI allI impI)
  show "get_recommendation False m = ''No action required - metrics within normal range''"
    by (simp add: get_recommendation_def)
next
  fix v assume "m ''memory_usage'' = Some v \<and> v > 85"
  then have "get m ''memory_usage'' 0 > 85" by (simp add: get_def)
  then have mem: "''High memory usage - check for memory leaks or increase limits''
                    \<in> set (recommendations_of m)"
    by (rule memory_recommended)
  then have "recommendations_of m \<noteq> []" by auto
  then have "get_recommendation True m = join '' | '' (recommendations_of m)"
    by (simp add: get_recommendation_def Let_def)
  with mem show "sublist ''High memory usage - check for memory leaks or increase limits''
                   (get_recommendation True m)"
    by (simp add: sublist_join)
qed

theorem get_recommendation_cases_witness:
  "scenario_A ''memory_usage'' = Some 92 \<and> (92::real) > 85 \<and>
   get_recommendation False scenario_B = ''No action required - metrics within normal range'' \<and>
   sublist ''High memory usage - check for memory leaks or increase limits''
     (get_recommendation True scenario_A)"
proof -
  have h: "scenario_A ''memory_usage'' = Some 92 \<and> (92::real) > 85"
    by (simp add: scenario_A_def)
  from get_recommendation_cases [of scenario_B]
  have b: "get_recommendation False scenario_B
             = ''No action required - metrics within normal range''"
    by blast
  from get_recommendation_cases [of scenario_A] h
  have a: "sublist ''High memory usage - check for memory leaks or increase limits''
             (get_recommendation True scenario_A)"
    by blast
  from h a b show ?thesis by blast
qed

subsection \<open>Scoring\<close>

lemma results_loop_confidence:
  "results_loop ms idx ps = Inr rs \<Longrightarrow> r \<in> set rs \<Longrightarrow> confidence r = \<bar>score r\<bar>"
proof (induction ps arbitrary: idx rs)
  case Nil
  then show ?case by simp
next
  case (Cons p ps)
  obtain pred sc where p: "p = (pred, sc)" by (cases p)
  from Cons.prems(1) p have lt: "idx < length ms"
    by (auto split: if_splits)
  from Cons.prems(1) p lt obtain rs' where
    rest: "results_loop ms (Suc idx) ps = Inr rs'"
    and rs: "rs = \<lparr>v_timestamp = timestamp (ms ! idx), is_anomaly = (pred = - 1),
                  score = sc, confidence = \<bar>sc\<bar>, v_metrics = ms ! idx,
                  recommendation = get_recommendation (pred = - 1) (entries (ms ! idx))\<rparr>
                # rs'"
    by (auto simp: Let_def split: sum.splits)
  from Cons.prems(2) rs consider "r = hd rs" | "r \<in> set rs'" by auto
  then show ?case
  proof cases
    case 1
    then show ?thesis using rs by simp
  next
    case 2
    then show ?thesis using Cons.IH [OF rest] by simp
  qed
qed

lemma score_metrics_confidence:
  "score_metrics self ms = Inr rs \<Longrightarrow> r \<in> set rs \<Longrightarrow> confidence r = \<bar>score r\<bar>"
  unfolding score_metrics_def Let_def
  by (auto split: sum.splits dest: results_loop_confidence)

lemma results_loop_scores:
  "idx + length ps \<le> length ms \<Longrightarrow>
   \<exists>rs. results_loop ms idx ps = Inr rs \<and> map score rs = map snd ps"
proof (induction ps arbitrary: idx)
  case Nil
  then show ?case by simp
next
  case (Cons p ps)
  obtain pred sc where p: "p = (pred, sc)" by (cases p)
  from Cons.prems have lt: "idx < length ms" and le: "Suc idx + length ps \<le> length ms"
    by simp_all
  from Cons.IH [OF le] obtain rs where
    "results_loop ms (Suc idx) ps = Inr rs" and "map score rs = map snd ps"
    by blast
  with lt p show ?case by (simp add: Let_def)
qed

lemma demo_prepare_features: "prepare_features demo_predictor ms = feature_rows ms"
proof -
  have "map (\<lambda>v::real. if \<bar>v\<bar> \<le> 2 ^ 53 then v else v) row = row" for row
    by (induction row) auto
  then show ?thesis
    by (simp add: prepare_features_def np_array_def demo_predictor_def)
qed

lemma demo_predictor_scores:
  "map_sum id (map score) (score_metrics demo_predictor ms)
   = Inr (map (\<lambda>m. - get (entries m) ''cpu_usage'' 0 / 100) ms)"
proof -
  let ?f = "\<lambda>r::real list. if hd r > 90 then - 1 else (1::int)"
  let ?g = "\<lambda>r::real list. - (hd r) / 100"
  let ?ps = "zip (map ?f (prepare_features demo_predictor ms))
                 (map ?g (prepare_features demo_predictor ms))"
  have "0 + length ?ps \<le> length ms" by (simp add: prepare_features_length)
  from results_loop_scores [OF this] obtain rs where
    rl: "results_loop ms 0 ?ps = Inr rs" and sc: "map score rs = map snd ?ps"
    by blast
  have a: "map snd ?ps = map ?g (prepare_features demo_predictor ms)" by simp
  have b: "map ?g (prepare_features demo_predictor ms)
           = map (\<lambda>m. - get (entries m) ''cpu_usage'' 0 / 100) ms"
    by (simp add: demo_prepare_features feature_rows_map feature_vector_def)
  have "map score rs = map (\<lambda>m. - get (entries m) ''cpu_usage'' 0 / 100) ms"
    by (rule trans [OF sc trans [OF a b]])
  moreover have "score_metrics demo_predictor ms = Inr rs"
    using rl by (simp add: score_metrics_def demo_predictor_def Let_def)
  ultimately show ?thesis by simp
qed

text \<open>
  C6: every verdict that scoring produces has a confidence equal to the absolute value of
  its score; so the confidence is non-negative, and between any two verdicts (of the same
  run or of two runs) it is monotone in the absolute score.
\<close>

theorem confidence_is_abs_score:
  assumes "score_metrics self ms = Inr rs" and "score_metrics self' ms' = Inr rs'"
    and "r1 \<in> set rs" and "r2 \<in> set rs'"
  shows "0 \<le> confidence r1 \<and> confidence r1 = \<bar>score r1\<bar> \<and>
         (\<bar>score r1\<bar> \<le> \<bar>score r2\<bar> \<longrightarrow> confidence r1 \<le> confidence r2)"
proof -
  have c1: "confidence r1 = \<bar>score r1\<bar>"
    using assms(1,3) by (rule score_metrics_confidence)
  have c2: "confidence r2 = \<bar>score r2\<bar>"
    using assms(2,4) by (rule score_metrics_confidence)
  from c1 c2 show ?thesis by simp
qed

lemma demo_predictor_two_samples:
  "\<exists>vB vA. score_metrics demo_predictor [sample_B, sample_A] = Inr [vB, vA] \<and>
           score vB = - (45 / 100) \<and> score vA = - (95 / 100) \<and>
           \<not> is_anomaly vB \<and> is_anomaly vA"
  by (simp add: score_metrics_def demo_prepare_features)
     (simp add: demo_predictor_def Let_def feature_vector_def get_def
        sample_A_def sample_B_def scenario_A_def scenario_B_def)

theorem confidence_is_abs_score_witness:
  "\<exists>vB vA. score_metrics demo_predictor [sample_B, sample_A] = Inr [vB, vA] \<and>
           vB \<in> set [vB, vA] \<and> vA \<in> set [vB, vA] \<and>
           \<bar>score vB\<bar> \<le> \<bar>score vA\<bar> \<and>
           0 \<le> confidence vB \<and> confidence vB = 45 / 100 \<and>
           confidence vB \<le> confidence vA"
proof -
  from demo_predictor_two_samples obtain vB vA where
    run: "score_metrics demo_predictor [sample_B, sample_A] = Inr [vB, vA]"
    and sB: "score vB = - (45 / 100)" and sA: "score vA = - (95 / 100)"
    by blast
  have mB: "vB \<in> set [vB, vA]" and mA: "vA \<in> set [vB, vA]" by simp_all
  have le: "\<bar>score vB\<bar> \<le> \<bar>score vA\<bar>" using sB sA by simp
  from confidence_is_abs_score [OF run run mB mA] le sB
  have "0 \<le> confidence vB \<and> confidence vB = 45 / 100 \<and> confidence vB \<le> confidence vA"
    by simp
  with run mB mA le show ?thesis by blast
qed

lemma results_loop_triples:
  "length ms = length ms' \<Longrightarrow>
   map_sum id (map verdict_triple) (results_loop ms idx ps)
   = map_sum id (map verdict_triple) (results_loop ms' idx ps)"
proof (induction ps arbitrary: idx)
  case Nil
  then show ?case by simp
next
  case (Cons p ps)
  obtain pred sc where p: "p = (pred, sc)" by (cases p)
  have IH: "map_sum id (map verdict_triple) (results_loop ms (Suc idx) ps)
            = map_sum id (map verdict_triple) (results_loop ms' (Suc idx) ps)"
    by (rule Cons.IH [OF Cons.prems])
  show ?case
  proof (cases "idx < length ms")
    case False
    then show ?thesis using Cons.prems p by simp
  next
    case True
    then have T': "idx < length ms'" using Cons.prems by simp
    show ?thesis
    proof (cases "results_loop ms (Suc idx) ps")
      case (Inl e)
      with IH have "results_loop ms' (Suc idx) ps = Inl e"
        by (cases "results_loop ms' (Suc idx) ps") auto
      then show ?thesis using Inl True T' p by (simp add: Let_def)
    next
      case (Inr rs)
      with IH obtain rs' where "results_loop ms' (Suc idx) ps = Inr rs'"
        and "map verdict_triple rs = map verdict_triple rs'"
        by (cases "results_loop ms' (Suc idx) ps") auto
      moreover have
        "verdict_triple \<lparr>v_timestamp = timestamp (ms ! idx), is_anomaly = (pred = - 1),
            score = sc, confidence = \<bar>sc\<bar>, v_metrics = ms ! idx,
            recommendation = get_recommendation (pred = - 1) (entries (ms ! idx))\<rparr>
         = verdict_triple \<lparr>v_timestamp = timestamp (ms' ! idx), is_anomaly = (pred = - 1),
            score = sc, confidence = \<bar>sc\<bar>, v_metrics = ms' ! idx,
            recommendation = get_recommendation (pred = - 1) (entries (ms' ! idx))\<rparr>"
        by (simp add: verdict_triple_def)
      ultimately show ?thesis using Inr True T' p by (simp add: Let_def)
    qed
  qed
qed

lemma entries_fetch_sample_clock:
  "entries (fetch_sample z now i) = entries (fetch_sample z now' i)"
  by (simp add: fetch_sample_def Let_def)

lemma fetch_rows_clock:
  "feature_rows (fetch_metrics z now s w) = feature_rows (fetch_metrics z now' s' w')"
  unfolding feature_rows_map fetch_metrics_def map_map comp_def
  by (simp only: entries_fetch_sample_clock [of z now _ now'])

lemma fetch_features_clock:
  "prepare_features self (fetch_metrics z now s w)
   = prepare_features self (fetch_metrics z now' s' w')"
  by (simp only: prepare_features_def fetch_rows_clock [of z now s w now' s' w'])

text \<open>
  C5, as the code has it: the triples (score, is\_anomaly, confidence) that scoring
  produces, or the exception it raises, are determined by the fitted pair and the feature
  matrix: two metric sequences with the same features give the same triples. Through
  \<^verbatim>\<open>predict\<close> the features come from \<^verbatim>\<open>_fetch_metrics\<close>, hence from the random draws.
\<close>

theorem scoring_determined_by_features:
  assumes "prepare_features self ms = prepare_features self ms'"
  shows "map_sum id (map verdict_triple) (score_metrics self ms)
         = map_sum id (map verdict_triple) (score_metrics self ms')"
proof -
  have len: "length ms = length ms'"
    using assms prepare_features_length by metis
  show ?thesis
    unfolding score_metrics_def Let_def assms
    by (auto split: sum.splits simp: results_loop_triples [OF len])
qed

theorem scoring_determined_by_features_witness:
  "prepare_features demo_predictor (fetch_metrics (\<lambda>k. 0) 0 ''payment-service'' ''1h'')
     = prepare_features demo_predictor
         (fetch_metrics (\<lambda>k. 0) 3600000000 ''payment-service'' ''1h'') \<and>
   map_sum id (map verdict_triple)
     (predict demo_predictor (\<lambda>k. 0) 0 ''payment-service'' ''1h'')
     = map_sum id (map verdict_triple)
         (predict demo_predictor (\<lambda>k. 0) 3600000000 ''payment-service'' ''1h'')"
proof -
  have h: "prepare_features demo_predictor (fetch_metrics (\<lambda>k. 0) 0 ''payment-service'' ''1h'')
     = prepare_features demo_predictor
         (fetch_metrics (\<lambda>k. 0) 3600000000 ''payment-service'' ''1h'')"
    by (rule fetch_features_clock)
  from scoring_determined_by_features [OF h] h
  show ?thesis by (simp add: predict_def)
qed

lemma fetch_metrics_first:
  "fetch_metrics z now s w = fetch_sample z now 0 # map (fetch_sample z now) [1..<60]"
  by (simp add: fetch_metrics_def upt_conv_Cons)

text \<open>
  C5, as the claim states it, fails for \<^verbatim>\<open>predict\<close>: two runs for the same service and time
  window, at the same clock reading, score differently when the random draws of
  \<^verbatim>\<open>_fetch_metrics\<close> differ.
\<close>

theorem predict_depends_on_random_draws:
  "map_sum id (map verdict_triple)
     (predict demo_predictor (\<lambda>k. 0) 0 ''payment-service'' ''1h'')
   \<noteq> map_sum id (map verdict_triple)
       (predict demo_predictor (\<lambda>k. 1) 0 ''payment-service'' ''1h'')"
proof
  let ?run = "\<lambda>z. predict demo_predictor z 0 ''payment-service'' ''1h''"
  let ?cpu = "\<lambda>m. - get (entries m) ''cpu_usage'' 0 / 100"
  assume eq: "map_sum id (map verdict_triple) (?run (\<lambda>k. 0))
              = map_sum id (map verdict_triple) (?run (\<lambda>k. 1))"
  have sc: "map_sum id (map score) r = map_sum id (map fst) (map_sum id (map verdict_triple) r)"
    for r :: "py_exception + verdict list"
    by (cases r) (simp_all add: verdict_triple_def comp_def)
  have "map_sum id (map score) (?run (\<lambda>k. 0)) = map_sum id (map score) (?run (\<lambda>k. 1))"
    using eq by (simp only: sc)
  then have "map ?cpu (fetch_metrics (\<lambda>k. 0) 0 ''payment-service'' ''1h'')
             = map ?cpu (fetch_metrics (\<lambda>k. 1) 0 ''payment-service'' ''1h'')"
    by (simp only: predict_def demo_predictor_scores sum.inject)
  then have "?cpu (fetch_sample (\<lambda>k. 0) 0 0) = ?cpu (fetch_sample (\<lambda>k. 1) 0 0)"
    by (simp only: fetch_metrics_first list.map list.inject)
  then show False
    by (simp add: fetch_sample_def Let_def normal_def get_def)
qed

section \<open>Properties of the similarity index\<close>

text \<open>
  C1: on a freshly created, empty index and with \<open>top_k = 0\<close> the query returns one
  match, the literal of the source, where the claim requires the empty sequence.
\<close>

theorem find_similar_incidents_on_empty_index:
  "index (new_VectorSearch 768 ''models/faiss.index'') = [] \<and>
   metadata (new_VectorSearch 768 ''models/faiss.index'') = [] \<and>
   find_similar_incidents (new_VectorSearch 768 ''models/faiss.index'')
       ''payment-service'' [] 0
     = [[(''incident_id'', JStr ''INC-2024-100''),
         (''root_cause'', JStr ''Memory leak in service''),
         (''similarity'', JFloat 0.89)]] \<and>
   length (find_similar_incidents (new_VectorSearch 768 ''models/faiss.index'')
             ''payment-service'' [] 0) = 1"
  by (simp add: new_VectorSearch_def find_similar_incidents_def)

section \<open>Properties of context assembly\<close>

lemma last_n_idem: "last_n n (last_n n xs) = last_n n xs"
  by (simp add: last_n_def)

lemma length_last_n: "length (last_n n xs) \<le> n"
  by (simp add: last_n_def)

lemma truthy_take: "0 < n \<Longrightarrow> truthy (map_option (take n) xs) = truthy xs"
  by (cases xs) (auto simp: truthy_def)

lemma the_take: "truthy xs \<Longrightarrow> take n (the (map_option (take n) xs)) = take n (the xs)"
  by (cases xs) (auto simp: truthy_def)

lemma context_parts_truncate:
  "context_parts lib m logs tr si
   = context_parts lib m (last_n 50 logs) (map_option (take 10) tr) (map_option (take 3) si)"
  by (simp add: context_parts_def last_n_idem truthy_take the_take)

lemma context_parts_length: "length (context_parts lib m logs tr si) \<le> 65"
proof -
  have "length (last_n 50 logs) \<le> 50" by (rule length_last_n)
  then show ?thesis by (auto simp: context_parts_def)
qed

text \<open>
  C7: the context document is a function of the library's serialiser and of (metrics,
  logs, traces, similar incidents) alone, and it is bounded: it is the document of the
  last 50 log lines, the first 10 trace records and the first 3 similar incidents, and it
  is the join of at most 65 parts, of which at most 50 are log lines.
\<close>

theorem prepare_context_bounded:
  "prepare_context lib m logs tr si
     = prepare_context lib m (last_n 50 logs) (map_option (take 10) tr)
         (map_option (take 3) si) \<and>
   length (last_n 50 logs) \<le> 50 \<and>
   length (context_parts lib m logs tr si) \<le> 65"
  using context_parts_truncate [of lib m logs tr si] context_parts_length [of lib m logs tr si]
  by (simp add: prepare_context_def length_last_n)

theorem prepare_context_bounded_witness:
  "last_n 50 (''oldest'' # replicate 50 ''line'') = replicate 50 ''line'' \<and>
   prepare_context demo_lib (req_metrics request_A) (''oldest'' # replicate 50 ''line'')
       None (Some [])
     = prepare_context demo_lib (req_metrics request_A) (replicate 50 ''line'') None (Some [])"
proof -
  have l: "last_n 50 (''oldest'' # replicate 50 ''line'') = replicate 50 ''line''"
    by (simp add: last_n_def)
  from prepare_context_bounded [of demo_lib "req_metrics request_A"
         "''oldest'' # replicate 50 ''line''" None "Some []"]
  have "prepare_context demo_lib (req_metrics request_A)
          (''oldest'' # replicate 50 ''line'') None (Some [])
        = prepare_context demo_lib (req_metrics request_A)
            (last_n 50 (''oldest'' # replicate 50 ''line'')) None (Some [])"
    by simp
  with l show ?thesis by simp
qed

section \<open>Properties of remediation\<close>

text \<open>
  C9: two calls of \<^verbatim>\<open>execute_remediation\<close> with \<^verbatim>\<open>auto_approve\<close> and the same
  (incident\_id, fix\_type) return the same result, the second call leaves the generator
  as the first left it, and together they execute the side effect once if the key had not
  been applied before (and not at all if it had).
\<close>

theorem execute_remediation_idempotent:
  "(let p1 = execute_remediation fg i f True;
        p2 = execute_remediation (snd p1) i f True
    in fst p2 = fst p1 \<and> snd p2 = snd p1 \<and>
       effects (snd p2) = effects fg @ (if applied fg (i, f) = None then [(i, f)] else []))"
  by (cases "applied fg (i, f)") (simp_all add: execute_remediation_def apply_fix_def Let_def)

theorem execute_remediation_idempotent_witness:
  "fst (execute_remediation demo_fix_generator ''INC-2024-001'' ''restart'' True)
     = Inr [(''status'', JStr ''applied''), (''incident_id'', JStr ''INC-2024-001''),
            (''result'', JStr ''restarted'')] \<and>
   fst (execute_remediation
          (snd (execute_remediation demo_fix_generator ''INC-2024-001'' ''restart'' True))
          ''INC-2024-001'' ''restart'' True)
     = fst (execute_remediation demo_fix_generator ''INC-2024-001'' ''restart'' True) \<and>
   effects (snd (execute_remediation
          (snd (execute_remediation demo_fix_generator ''INC-2024-001'' ''restart'' True))
          ''INC-2024-001'' ''restart'' True))
     = [(''INC-2024-001'', ''restart'')]"
proof -
  have fresh: "applied demo_fix_generator (''INC-2024-001'', ''restart'') = None"
    and none: "effects demo_fix_generator = []"
    by (simp_all add: demo_fix_generator_def)
  have first: "fst (execute_remediation demo_fix_generator ''INC-2024-001'' ''restart'' True)
     = Inr [(''status'', JStr ''applied''), (''incident_id'', JStr ''INC-2024-001''),
            (''result'', JStr ''restarted'')]"
    by (simp add: execute_remediation_def apply_fix_def demo_fix_generator_def Let_def)
  let ?p1 = "execute_remediation demo_fix_generator ''INC-2024-001'' ''restart'' True"
  let ?p2 = "execute_remediation (snd ?p1) ''INC-2024-001'' ''restart'' True"
  from execute_remediation_idempotent [of demo_fix_generator "''INC-2024-001''" "''restart''"]
  have same: "fst ?p2 = fst ?p1"
    and once: "effects (snd ?p2) = effects demo_fix_generator @
                 (if applied demo_fix_generator (''INC-2024-001'', ''restart'') = None
                  then [(''INC-2024-001'', ''restart'')] else [])"
    unfolding Let_def by blast+
  have "effects (snd ?p2) = [(''INC-2024-001'', ''restart'')]"
    unfolding once fresh none by simp
  with first same show ?thesis by blast
qed

section \<open>Properties of the analysis pipeline\<close>

lemma rca_of_call_raises:
  "reasoning_call lib a rq = Inl e \<Longrightarrow> rca_of lib a rq = Inl e"
  by (simp add: rca_of_def analyze_def reasoning_call_def)

lemma rca_of_reply_text:
  "reasoning_call lib a rq = Inr content \<Longrightarrow>
   rca_of lib a rq
   = (case json_loads lib content of Inl e \<Rightarrow> Inl e | Inr v \<Rightarrow> rca_of_reply v)"
  by (simp add: rca_of_def analyze_def reasoning_call_def)

lemma analyze_incident_raises:
  "rca_of lib a rq = Inl e \<Longrightarrow>
   analyze_incident lib a rq tasks
   = (Inl (HTTPException 500 (''Analysis failed: '' @ exc_str e)), tasks)"
  by (simp add: analyze_incident_def Let_def analysis_failed_def)

lemma analyze_incident_rejected:
  assumes "rca_of lib a rq = Inr rca"
    and "generate_fix (fix_generator a) (rca_root_cause rca) (req_service_name rq)
           (rca_severity rca) = Inr fix_code"
    and "subscript fix_code ''fix_details'' = Inr fix_details"
    and "subscript fix_code ''code'' = Inr code"
    and "IncidentAnalysisResponse_init (response_coerce a) (response_error a)
           (req_incident_id rq) (rca_root_cause rca) (rca_severity rca)
           (rca_confidence rca) (rca_impact rca) fix_details code
           (similar_of a rq) (timeline_of a rq) = Inl e"
  shows "analyze_incident lib a rq tasks
         = (Inl (HTTPException 500 (''Analysis failed: '' @ exc_str e)),
            tasks @ [store_task_of rq rca])"
  using assms by (simp add: analyze_incident_def Let_def analysis_failed_def)

lemma run_background_tasks_keeps_store: "run_background_tasks vs ts = vs"
  unfolding run_background_tasks_def
  by (induction ts) (simp_all add: store_incident_def)

text \<open>
  C2, as the code has it. When the call of the reasoning service raises (a timeout), or
  its reply is malformed (\<^verbatim>\<open>json.loads\<close> raises, or the parsed reply is not a JSON object
  so that \<^verbatim>\<open>result.get\<close> raises), \<^verbatim>\<open>analyze_incident\<close> raises \<^verbatim>\<open>HTTPException\<close> with status
  500 and the detail "Analysis failed: " followed by the text of the exception, and the
  queue of background tasks is as it was. When the fields of the reply fail the
  validation of the response model, it raises the same kind of \<^verbatim>\<open>HTTPException\<close>, after
  the \<^verbatim>\<open>store_incident\<close> task of the request has been queued. In every case running the
  queued tasks leaves the vector store as it was: nothing is persisted.
\<close>

theorem reasoning_failure_is_http_500:
  "((reasoning_call lib a rq = Inl e
      \<or> (\<exists>content. reasoning_call lib a rq = Inr content \<and> json_loads lib content = Inl e)
      \<or> (\<exists>content v. reasoning_call lib a rq = Inr content
                       \<and> json_loads lib content = Inr v \<and> rca_of_reply v = Inl e))
     \<longrightarrow> analyze_incident lib a rq tasks
          = (Inl (HTTPException 500 (''Analysis failed: '' @ exc_str e)), tasks))
   \<and> ((\<exists>content v fix_code fix_details code.
          reasoning_call lib a rq = Inr content
          \<and> json_loads lib content = Inr v \<and> rca_of_reply v = Inr rca
          \<and> generate_fix (fix_generator a) (rca_root_cause rca) (req_service_name rq)
                (rca_severity rca) = Inr fix_code
          \<and> subscript fix_code ''fix_details'' = Inr fix_details
          \<and> subscript fix_code ''code'' = Inr code
          \<and> IncidentAnalysisResponse_init (response_coerce a) (response_error a)
                (req_incident_id rq) (rca_root_cause rca) (rca_severity rca)
                (rca_confidence rca) (rca_impact rca) fix_details code
                (similar_of a rq) (timeline_of a rq) = Inl e')
     \<longrightarrow> analyze_incident lib a rq tasks
          = (Inl (HTTPException 500 (''Analysis failed: '' @ exc_str e')),
             tasks @ [store_task_of rq rca]))
   \<and> run_background_tasks vs (snd (analyze_incident lib a rq tasks)) = vs"
proof (intro conjI impI)
  assume "reasoning_call lib a rq = Inl e
      \<or> (\<exists>content. reasoning_call lib a rq = Inr content \<and> json_loads lib content = Inl e)
      \<or> (\<exists>content v. reasoning_call lib a rq = Inr content
                       \<and> json_loads lib content = Inr v \<and> rca_of_reply v = Inl e)"
  then have "rca_of lib a rq = Inl e"
  proof (elim disjE exE conjE)
    assume "reasoning_call lib a rq = Inl e"
    then show ?thesis by (rule rca_of_call_raises)
  next
    fix content
    assume "reasoning_call lib a rq = Inr content" and "json_loads lib content = Inl e"
    then show ?thesis by (simp add: rca_of_reply_text)
  next
    fix content v
    assume "reasoning_call lib a rq = Inr content" and "json_loads lib content = Inr v"
      and "rca_of_reply v = Inl e"
    then show ?thesis by (simp add: rca_of_reply_text)
  qed
  then show "analyze_incident lib a rq tasks
             = (Inl (HTTPException 500 (''Analysis failed: '' @ exc_str e)), tasks)"
    by (rule analyze_incident_raises)
next
  assume "\<exists>content v fix_code fix_details code.
          reasoning_call lib a rq = Inr content
          \<and> json_loads lib content = Inr v \<and> rca_of_reply v = Inr rca
          \<and> generate_fix (fix_generator a) (rca_root_cause rca) (req_service_name rq)
                (rca_severity rca) = Inr fix_code
          \<and> subscript fix_code ''fix_details'' = Inr fix_details
          \<and> subscript fix_code ''code'' = Inr code
          \<and> IncidentAnalysisResponse_init (response_coerce a) (response_error a)
                (req_incident_id rq) (rca_root_cause rca) (rca_severity rca)
                (rca_confidence rca) (rca_impact rca) fix_details code
                (similar_of a rq) (timeline_of a rq) = Inl e'"
  then obtain content v fix_code fix_details code where
    call: "reasoning_call lib a rq = Inr content"
    and loads: "json_loads lib content = Inr v" and reply: "rca_of_reply v = Inr rca"
    and gen: "generate_fix (fix_generator a) (rca_root_cause rca) (req_service_name rq)
                (rca_severity rca) = Inr fix_code"
    and s1: "subscript fix_code ''fix_details'' = Inr fix_details"
    and s2: "subscript fix_code ''code'' = Inr code"
    and init: "IncidentAnalysisResponse_init (response_coerce a) (response_error a)
                (req_incident_id rq) (rca_root_cause rca) (rca_severity rca)
                (rca_confidence rca) (rca_impact rca) fix_details code
                (similar_of a rq) (timeline_of a rq) = Inl e'"
    by (elim exE conjE)
  from call loads reply have "rca_of lib a rq = Inr rca"
    by (simp add: rca_of_reply_text)
  then show "analyze_incident lib a rq tasks
             = (Inl (HTTPException 500 (''Analysis failed: '' @ exc_str e')),
                tasks @ [store_task_of rq rca])"
    using gen s1 s2 init by (rule analyze_incident_rejected)
next
  show "run_background_tasks vs (snd (analyze_incident lib a rq tasks)) = vs"
    by (rule run_background_tasks_keeps_store)
qed

lemma demo_call:
  "reasoning_call lib (app_with (agent_replying content)) rq = Inr content"
  by (simp add: reasoning_call_def app_with_def agent_replying_def)

lemma demo_generate_fix:
  "generate_fix (fix_generator (app_with agent)) rc sn sv = Inr demo_fix"
  by (simp add: app_with_def demo_fix_generator_def)

lemma demo_fix_keys:
  "map_of demo_fix ''fix_details'' = Some (JObj [(''type'', JStr ''restart'')])"
  "map_of demo_fix ''code''
   = Some (JStr ''kubectl rollout restart deployment/payment-service'')"
  by (simp_all add: demo_fix_def)

lemma demo_fix_subscripts:
  "subscript demo_fix ''fix_details'' = Inr (JObj [(''type'', JStr ''restart'')])"
  "subscript demo_fix ''code''
   = Inr (JStr ''kubectl rollout restart deployment/payment-service'')"
  by (simp_all add: demo_fix_def subscript_def)

lemma demo_loads:
  "json_loads demo_lib reply_no_confidence
   = Inr (JObj [(''root_cause'', JStr ''Memory leak''), (''severity'', JStr ''high'')])"
  "json_loads demo_lib reply_unchecked
   = Inr (JObj [(''root_cause'', JStr ''Disk full''), (''severity'', JStr ''catastrophic''),
                (''confidence'', JFloat 5.0)])"
  "json_loads demo_lib reply_negative
   = Inr (JObj [(''severity'', JStr ''low''), (''confidence'', JInt (- 1))])"
  "json_loads demo_lib reply_huge
   = Inr (JObj [(''severity'', JStr ''low''), (''confidence'', JInt huge_int)])"
  "json_loads demo_lib reply_array = Inr (JArr [JInt 1, JInt 2])"
  "json_loads demo_lib reply_null_root_cause = Inr (JObj [(''root_cause'', JNull)])"
  "json_loads demo_lib ''not json''
   = Inl (PyException ''JSONDecodeError'' ''Expecting value: line 1 column 1 (char 0)'')"
  by (simp_all add: demo_lib_def parsed_replies_def reply_test_def reply_no_confidence_def
        reply_unchecked_def reply_negative_def reply_huge_def reply_array_def
        reply_null_root_cause_def)

theorem reasoning_failure_is_http_500_witness:
  "reasoning_call demo_lib (app_with agent_timeout) request_A
     = Inl (PyException ''APITimeoutError'' ''Request timed out.'') \<and>
   analyze_incident demo_lib (app_with agent_timeout) request_A []
     = (Inl (HTTPException 500 ''Analysis failed: Request timed out.''), []) \<and>
   reasoning_call demo_lib (app_with (agent_replying ''not json'')) request_A
     = Inr ''not json'' \<and>
   json_loads demo_lib ''not json''
     = Inl (PyException ''JSONDecodeError'' ''Expecting value: line 1 column 1 (char 0)'') \<and>
   analyze_incident demo_lib (app_with (agent_replying ''not json'')) request_A []
     = (Inl (HTTPException 500
               ''Analysis failed: Expecting value: line 1 column 1 (char 0)''), []) \<and>
   reasoning_call demo_lib (app_with (agent_replying reply_array)) request_A
     = Inr reply_array \<and>
   json_loads demo_lib reply_array = Inr (JArr [JInt 1, JInt 2]) \<and>
   rca_of_reply (JArr [JInt 1, JInt 2])
     = Inl (PyException ''AttributeError''
              ([CHR 0x27] @ ''list'' @ [CHR 0x27] @ '' object has no attribute '' @
               [CHR 0x27] @ ''get'' @ [CHR 0x27])) \<and>
   analyze_incident demo_lib (app_with (agent_replying reply_array)) request_A []
     = (Inl (HTTPException 500
               (''Analysis failed: '' @ [CHR 0x27] @ ''list'' @ [CHR 0x27] @
                '' object has no attribute '' @ [CHR 0x27] @ ''get'' @ [CHR 0x27])), []) \<and>
   reasoning_call demo_lib (app_with (agent_replying reply_null_root_cause)) request_A
     = Inr reply_null_root_cause \<and>
   json_loads demo_lib reply_null_root_cause = Inr (JObj [(''root_cause'', JNull)]) \<and>
   fst (analyze_incident demo_lib (app_with (agent_replying reply_null_root_cause))
          request_A [])
     = Inl (HTTPException 500
              ''Analysis failed: 1 validation error for IncidentAnalysisResponse'') \<and>
   length (snd (analyze_incident demo_lib (app_with (agent_replying reply_null_root_cause))
                  request_A [])) = 1 \<and>
   run_background_tasks (new_VectorSearch 768 ''models/faiss.index'')
       (snd (analyze_incident demo_lib (app_with (agent_replying reply_null_root_cause))
               request_A []))
     = new_VectorSearch 768 ''models/faiss.index''"
proof -
  let ?timeout = "PyException ''APITimeoutError'' ''Request timed out.''"
  let ?decode = "PyException ''JSONDecodeError'' ''Expecting value: line 1 column 1 (char 0)''"
  let ?attr = "PyException ''AttributeError''
              ([CHR 0x27] @ ''list'' @ [CHR 0x27] @ '' object has no attribute '' @
               [CHR 0x27] @ ''get'' @ [CHR 0x27])"
  let ?invalid = "PyException ''ValidationError''
                    ''1 validation error for IncidentAnalysisResponse''"
  let ?rca = "\<lparr>rca_root_cause = JNull, rca_severity = JStr ''medium'',
               rca_confidence = JFloat 0.0, rca_impact = JStr ''Unknown impact'',
               rca_contributing_factors = JArr [], rca_timeline = JArr [],
               rca_recommendations = JArr []\<rparr>"
  let ?n = "app_with (agent_replying reply_null_root_cause)"
  have t: "reasoning_call demo_lib (app_with agent_timeout) request_A = Inl ?timeout"
    by (simp add: reasoning_call_def app_with_def agent_timeout_def)
  have r1: "analyze_incident demo_lib (app_with agent_timeout) request_A []
            = (Inl (HTTPException 500 (''Analysis failed: '' @ exc_str ?timeout)), [])"
    by (rule mp [OF conjunct1 [OF reasoning_failure_is_http_500] disjI1 [OF t]])
  have g: "reasoning_call demo_lib (app_with (agent_replying ''not json'')) request_A
           = Inr ''not json''"
    by (rule demo_call)
  have gl: "json_loads demo_lib ''not json'' = Inl ?decode"
    by (rule demo_loads)
  have "\<exists>content. reasoning_call demo_lib (app_with (agent_replying ''not json'')) request_A
                    = Inr content \<and> json_loads demo_lib content = Inl ?decode"
    using g gl by (intro exI conjI)
  then have r2: "analyze_incident demo_lib (app_with (agent_replying ''not json'')) request_A []
                 = (Inl (HTTPException 500 (''Analysis failed: '' @ exc_str ?decode)), [])"
    by (intro mp [OF conjunct1 [OF reasoning_failure_is_http_500]] disjI2 disjI1)
  have ar: "reasoning_call demo_lib (app_with (agent_replying reply_array)) request_A
            = Inr reply_array"
    by (rule demo_call)
  have al: "json_loads demo_lib reply_array = Inr (JArr [JInt 1, JInt 2])"
    by (rule demo_loads)
  have aa: "rca_of_reply (JArr [JInt 1, JInt 2]) = Inl ?attr"
    by (simp add: rca_of_reply_def)
  have "\<exists>content v. reasoning_call demo_lib (app_with (agent_replying reply_array)) request_A
                      = Inr content
                    \<and> json_loads demo_lib content = Inr v \<and> rca_of_reply v = Inl ?attr"
    using ar al aa by (intro exI conjI)
  then have r3: "analyze_incident demo_lib (app_with (agent_replying reply_array)) request_A []
                 = (Inl (HTTPException 500 (''Analysis failed: '' @ exc_str ?attr)), [])"
    by (intro mp [OF conjunct1 [OF reasoning_failure_is_http_500]] disjI2)
  have nr: "reasoning_call demo_lib ?n request_A = Inr reply_null_root_cause"
    by (rule demo_call)
  have nl: "json_loads demo_lib reply_null_root_cause = Inr (JObj [(''root_cause'', JNull)])"
    by (rule demo_loads)
  have nrep: "rca_of_reply (JObj [(''root_cause'', JNull)]) = Inr ?rca"
    by (simp add: rca_of_reply_def dict_get_def)
  have ngen: "generate_fix (fix_generator ?n) (rca_root_cause ?rca)
                (req_service_name request_A) (rca_severity ?rca) = Inr demo_fix"
    by (rule demo_generate_fix)
  have ninit: "IncidentAnalysisResponse_init (response_coerce ?n) (response_error ?n)
                 (req_incident_id request_A) (rca_root_cause ?rca) (rca_severity ?rca)
                 (rca_confidence ?rca) (rca_impact ?rca)
                 (JObj [(''type'', JStr ''restart'')])
                 (JStr ''kubectl rollout restart deployment/payment-service'')
                 (similar_of ?n request_A) (timeline_of ?n request_A) = Inl ?invalid"
    by (simp add: IncidentAnalysisResponse_init_def Let_def float_overflows_def as_str_def
          app_with_def)
  have "\<exists>content v fix_code fix_details code.
          reasoning_call demo_lib ?n request_A = Inr content
          \<and> json_loads demo_lib content = Inr v \<and> rca_of_reply v = Inr ?rca
          \<and> generate_fix (fix_generator ?n) (rca_root_cause ?rca)
                (req_service_name request_A) (rca_severity ?rca) = Inr fix_code
          \<and> subscript fix_code ''fix_details'' = Inr fix_details
          \<and> subscript fix_code ''code'' = Inr code
          \<and> IncidentAnalysisResponse_init (response_coerce ?n) (response_error ?n)
                (req_incident_id request_A) (rca_root_cause ?rca) (rca_severity ?rca)
                (rca_confidence ?rca) (rca_impact ?rca) fix_details code
                (similar_of ?n request_A) (timeline_of ?n request_A) = Inl ?invalid"
    using nr nl nrep ngen demo_fix_subscripts ninit by (intro exI conjI)
  then have r4: "analyze_incident demo_lib ?n request_A []
                 = (Inl (HTTPException 500 (''Analysis failed: '' @ exc_str ?invalid)),
                    [] @ [store_task_of request_A ?rca])"
    by (rule mp [OF conjunct1 [OF conjunct2 [OF reasoning_failure_is_http_500]]])
  have r5: "run_background_tasks (new_VectorSearch 768 ''models/faiss.index'')
              (snd (analyze_incident demo_lib ?n request_A []))
            = new_VectorSearch 768 ''models/faiss.index''"
    by (rule conjunct2 [OF conjunct2 [OF reasoning_failure_is_http_500]])
  have f4: "fst (analyze_incident demo_lib ?n request_A [])
            = Inl (HTTPException 500
                     ''Analysis failed: 1 validation error for IncidentAnalysisResponse'')"
    and l4: "length (snd (analyze_incident demo_lib ?n request_A [])) = 1"
    by (simp_all add: r4)
  from r1 have r1': "analyze_incident demo_lib (app_with agent_timeout) request_A []
     = (Inl (HTTPException 500 ''Analysis failed: Request timed out.''), [])" by simp
  from r2 have r2': "analyze_incident demo_lib (app_with (agent_replying ''not json''))
       request_A []
     = (Inl (HTTPException 500
               ''Analysis failed: Expecting value: line 1 column 1 (char 0)''), [])" by simp
  from r3 have r3': "analyze_incident demo_lib (app_with (agent_replying reply_array))
       request_A []
     = (Inl (HTTPException 500
               (''Analysis failed: '' @ [CHR 0x27] @ ''list'' @ [CHR 0x27] @
                '' object has no attribute '' @ [CHR 0x27] @ ''get'' @ [CHR 0x27])), [])"
    by simp
  from t r1' g gl r2' ar al aa r3' nr nl f4 l4 r5 show ?thesis by (intro conjI)
qed

text \<open>
  C2, as the claim states it, fails: when the reasoning call times out the endpoint raises
  the handler's \<^verbatim>\<open>HTTPException\<close> with status 500, not a \<^verbatim>\<open>ReasoningUnavailableError\<close>.
\<close>

theorem reasoning_timeout_raises_http_exception:
  "analyze_incident demo_lib (app_with agent_timeout) request_A []
     = (Inl (HTTPException 500 ''Analysis failed: Request timed out.''), []) \<and>
   class_name (HTTPException 500 ''Analysis failed: Request timed out.'')
     \<noteq> ''ReasoningUnavailableError''"
  by (simp add: analyze_incident_def rca_of_def analyze_def Let_def analysis_failed_def
        app_with_def agent_timeout_def class_name_def)

subsection \<open>From the reply to the response\<close>

lemma analyze_of_reply:
  "chat_completions_create ag (deployment ag) (rca_messages lib now iid m logs tr si)
     = Inr content \<Longrightarrow>
   json_loads lib content = Inr reply \<Longrightarrow>
   analyze lib ag now iid m logs tr si = rca_of_reply reply"
  by (simp add: analyze_def)

lemma rca_of_reply_obj:
  "rca_of_reply (JObj d)
   = Inr \<lparr>rca_root_cause = dict_get d ''root_cause'' (JStr ''Unknown''),
          rca_severity = dict_get d ''severity'' (JStr ''medium''),
          rca_confidence = dict_get d ''confidence'' (JFloat 0.0),
          rca_impact = dict_get d ''impact_assessment'' (JStr ''Unknown impact''),
          rca_contributing_factors = dict_get d ''contributing_factors'' (JArr []),
          rca_timeline = dict_get d ''timeline'' (JArr []),
          rca_recommendations = dict_get d ''recommendations'' (JArr [])\<rparr>"
  by (simp add: rca_of_reply_def)

lemma as_float_not_overflow: "as_float v = Some x \<Longrightarrow> \<not> float_overflows v"
proof (cases v)
  case (JInt i)
  assume "as_float v = Some x"
  with JInt have "\<bar>i\<bar> \<le> 2 ^ 53" by (simp add: as_float_def split: if_splits)
  moreover have "(2::int) ^ 53 < 2 ^ 1024"
    by (rule power_strict_increasing) simp_all
  ultimately have "\<bar>i\<bar> < 2 ^ 1024" by (rule le_less_trans)
  with JInt show ?thesis by (simp add: float_overflows_def)
qed (simp_all add: float_overflows_def)

lemma huge_overflows: "float_overflows (JInt huge_int)"
proof -
  have e1: "(64::nat) * 16 = 1024" and e2: "(25::nat) * 16 = 400" by simp_all
  have "(2::int) ^ 1024 = (2 ^ 64) ^ 16" by (simp only: power_mult [symmetric] e1)
  also have "\<dots> \<le> (10 ^ 25) ^ 16" by (rule power_mono) simp_all
  also have "\<dots> = 10 ^ 400" by (simp only: power_mult [symmetric] e2)
  finally have le: "(2::int) ^ 1024 \<le> huge_int" by (simp only: huge_int_def)
  have "(0::int) \<le> 2 ^ 1024" by (rule zero_le_power) simp
  from this le have "(0::int) \<le> huge_int" by (rule order_trans)
  then have "\<bar>huge_int\<bar> = huge_int" by (rule abs_of_nonneg)
  with le show ?thesis by (simp only: float_overflows_def json.case)
qed

lemma analyze_incident_completes:
  assumes an: "rca_of lib a rq = Inr rca"
    and gen: "generate_fix (fix_generator a) (rca_root_cause rca) (req_service_name rq)
                (rca_severity rca) = Inr fix_code"
    and fd: "map_of fix_code ''fix_details'' = Some (JObj fd)"
    and cd: "map_of fix_code ''code'' = Some (JStr cd)"
    and rc: "as_str (rca_root_cause rca) = Some rc"
    and sv: "as_str (rca_severity rca) = Some sv"
    and cf: "as_float (rca_confidence rca) = Some cf"
    and im: "as_str (rca_impact rca) = Some im"
  shows "\<exists>resp tasks'. analyze_incident lib a rq tasks = (Inr resp, tasks')
           \<and> resp_root_cause resp = rc \<and> resp_severity resp = sv
           \<and> resp_confidence resp = cf"
proof -
  have s1: "subscript fix_code ''fix_details'' = Inr (JObj fd)"
    using fd by (simp add: subscript_def)
  have s2: "subscript fix_code ''code'' = Inr (JStr cd)"
    using cd by (simp add: subscript_def)
  have ok: "\<not> float_overflows (rca_confidence rca)"
    using cf by (rule as_float_not_overflow)
  have init: "IncidentAnalysisResponse_init coerce reject iid (rca_root_cause rca)
                (rca_severity rca) (rca_confidence rca) (rca_impact rca) (JObj fd) (JStr cd)
                sim tl
              = Inr \<lparr>resp_incident_id = iid, resp_root_cause = rc, resp_severity = sv,
                     resp_confidence = cf, resp_impact_assessment = im,
                     resp_recommended_fix = fd, resp_generated_code = cd,
                     resp_similar_incidents = sim, resp_timeline = tl\<rparr>"
    for coerce reject iid sim tl
    using rc sv cf im ok
    by (simp add: IncidentAnalysisResponse_init_def Let_def as_dict_def as_str_def)
  show ?thesis
    by (simp add: analyze_incident_def Let_def an gen s1 s2 init)
qed

lemma analyze_incident_overflow:
  assumes an: "rca_of lib a rq = Inr rca"
    and big: "float_overflows (rca_confidence rca)"
  shows "\<exists>detail tasks'. analyze_incident lib a rq tasks
                          = (Inl (HTTPException 500 detail), tasks')"
  using big
  by (simp add: analyze_incident_def Let_def an analysis_failed_def
        IncidentAnalysisResponse_init_def split: sum.splits)

lemma dict_get_str:
  "map_of d k = None \<or> (\<exists>s. map_of d k = Some (JStr s)) \<Longrightarrow>
   as_str (dict_get d k (JStr dflt))
   = Some (case map_of d k of None \<Rightarrow> dflt | Some v \<Rightarrow> the (as_str v))"
  by (auto simp: dict_get_def as_str_def)

lemma dict_get_float:
  "map_of d k = None \<or> (\<exists>v. map_of d k = Some v \<and> as_float v \<noteq> None) \<Longrightarrow>
   as_float (dict_get d k (JFloat dflt))
   = Some (case map_of d k of None \<Rightarrow> dflt | Some v \<Rightarrow> the (as_float v))"
  by (auto simp: dict_get_def as_float_def)

lemma pipeline_of_reply:
  assumes call: "reasoning_call lib a rq = Inr content"
    and loads: "json_loads lib content = Inr (JObj d)"
    and t_rc: "map_of d ''root_cause'' = None \<or> (\<exists>s. map_of d ''root_cause'' = Some (JStr s))"
    and t_sv: "map_of d ''severity'' = None \<or> (\<exists>s. map_of d ''severity'' = Some (JStr s))"
    and t_im: "map_of d ''impact_assessment'' = None
               \<or> (\<exists>s. map_of d ''impact_assessment'' = Some (JStr s))"
    and t_cf: "map_of d ''confidence'' = None
               \<or> (\<exists>v. map_of d ''confidence'' = Some v \<and> as_float v \<noteq> None)"
    and gen: "generate_fix (fix_generator a) (dict_get d ''root_cause'' (JStr ''Unknown''))
                (req_service_name rq) (dict_get d ''severity'' (JStr ''medium''))
              = Inr fix_code"
    and fd: "map_of fix_code ''fix_details'' = Some (JObj fd)"
    and cd: "map_of fix_code ''code'' = Some (JStr cd)"
  shows "\<exists>resp tasks'. analyze_incident lib a rq tasks = (Inr resp, tasks')
           \<and> resp_root_cause resp
               = (case map_of d ''root_cause'' of None \<Rightarrow> ''Unknown'' | Some v \<Rightarrow> the (as_str v))
           \<and> resp_severity resp
               = (case map_of d ''severity'' of None \<Rightarrow> ''medium'' | Some v \<Rightarrow> the (as_str v))
           \<and> resp_confidence resp
               = (case map_of d ''confidence'' of None \<Rightarrow> 0 | Some v \<Rightarrow> the (as_float v))"
proof -
  let ?rca = "\<lparr>rca_root_cause = dict_get d ''root_cause'' (JStr ''Unknown''),
               rca_severity = dict_get d ''severity'' (JStr ''medium''),
               rca_confidence = dict_get d ''confidence'' (JFloat 0.0),
               rca_impact = dict_get d ''impact_assessment'' (JStr ''Unknown impact''),
               rca_contributing_factors = dict_get d ''contributing_factors'' (JArr []),
               rca_timeline = dict_get d ''timeline'' (JArr []),
               rca_recommendations = dict_get d ''recommendations'' (JArr [])\<rparr>"
  have an: "rca_of lib a rq = Inr ?rca"
    using call loads by (simp add: rca_of_reply_text rca_of_reply_obj)
  have g: "generate_fix (fix_generator a) (rca_root_cause ?rca) (req_service_name rq)
             (rca_severity ?rca) = Inr fix_code"
    using gen by simp
  have rc: "as_str (rca_root_cause ?rca)
            = Some (case map_of d ''root_cause'' of None \<Rightarrow> ''Unknown''
                    | Some v \<Rightarrow> the (as_str v))"
    using dict_get_str [OF t_rc] by simp
  have sv: "as_str (rca_severity ?rca)
            = Some (case map_of d ''severity'' of None \<Rightarrow> ''medium''
                    | Some v \<Rightarrow> the (as_str v))"
    using dict_get_str [OF t_sv] by simp
  have im: "as_str (rca_impact ?rca)
            = Some (case map_of d ''impact_assessment'' of None \<Rightarrow> ''Unknown impact''
                    | Some v \<Rightarrow> the (as_str v))"
    using dict_get_str [OF t_im] by simp
  have cf: "as_float (rca_confidence ?rca)
            = Some (case map_of d ''confidence'' of None \<Rightarrow> 0 | Some v \<Rightarrow> the (as_float v))"
    using dict_get_float [OF t_cf] by simp
  show ?thesis
    by (rule analyze_incident_completes [OF an g fd cd rc sv cf im])
qed

text \<open>
  C4: when the reply parses to a JSON object, \<^verbatim>\<open>RCAAgent.analyze\<close> returns a result in
  which a missing \<^verbatim>\<open>root_cause\<close> is "Unknown", a missing \<^verbatim>\<open>severity\<close> is "medium" and a
  missing \<^verbatim>\<open>confidence\<close> is 0.0, whichever of them are missing. The pipeline then
  completes with these values in the response, provided the fields that are present have
  their declared types and the fix generator returns a dictionary with
  \<^verbatim>\<open>fix_details\<close> and \<^verbatim>\<open>code\<close>.
\<close>

theorem validating_defaults_missing_fields:
  assumes loads: "json_loads lib content = Inr (JObj d)"
  shows "(chat_completions_create ag (deployment ag)
            (rca_messages lib now iid m logs tr si) = Inr content
          \<longrightarrow> (\<exists>r. analyze lib ag now iid m logs tr si = Inr r
                 \<and> (map_of d ''root_cause'' = None \<longrightarrow> rca_root_cause r = JStr ''Unknown'')
                 \<and> (map_of d ''severity'' = None \<longrightarrow> rca_severity r = JStr ''medium'')
                 \<and> (map_of d ''confidence'' = None \<longrightarrow> rca_confidence r = JFloat 0.0)))
       \<and> (reasoning_call lib a rq = Inr content
            \<and> (map_of d ''root_cause'' = None \<or> (\<exists>s. map_of d ''root_cause'' = Some (JStr s)))
            \<and> (map_of d ''severity'' = None \<or> (\<exists>s. map_of d ''severity'' = Some (JStr s)))
            \<and> (map_of d ''impact_assessment'' = None
                 \<or> (\<exists>s. map_of d ''impact_assessment'' = Some (JStr s)))
            \<and> (map_of d ''confidence'' = None
                 \<or> (\<exists>v. map_of d ''confidence'' = Some v \<and> as_float v \<noteq> None))
            \<and> generate_fix (fix_generator a) (dict_get d ''root_cause'' (JStr ''Unknown''))
                  (req_service_name rq) (dict_get d ''severity'' (JStr ''medium''))
                = Inr fix_code
            \<and> map_of fix_code ''fix_details'' = Some (JObj fd)
            \<and> map_of fix_code ''code'' = Some (JStr cd)
          \<longrightarrow> (\<exists>resp tasks'. analyze_incident lib a rq tasks = (Inr resp, tasks')
                 \<and> (map_of d ''root_cause'' = None \<longrightarrow> resp_root_cause resp = ''Unknown'')
                 \<and> (map_of d ''severity'' = None \<longrightarrow> resp_severity resp = ''medium'')
                 \<and> (map_of d ''confidence'' = None \<longrightarrow> resp_confidence resp = 0)))"
proof (intro conjI impI)
  assume "chat_completions_create ag (deployment ag)
            (rca_messages lib now iid m logs tr si) = Inr content"
  then have "analyze lib ag now iid m logs tr si = rca_of_reply (JObj d)"
    using loads by (rule analyze_of_reply)
  then show "\<exists>r. analyze lib ag now iid m logs tr si = Inr r
            \<and> (map_of d ''root_cause'' = None \<longrightarrow> rca_root_cause r = JStr ''Unknown'')
            \<and> (map_of d ''severity'' = None \<longrightarrow> rca_severity r = JStr ''medium'')
            \<and> (map_of d ''confidence'' = None \<longrightarrow> rca_confidence r = JFloat 0.0)"
    by (simp add: rca_of_reply_obj dict_get_def)
next
  assume h: "reasoning_call lib a rq = Inr content
            \<and> (map_of d ''root_cause'' = None \<or> (\<exists>s. map_of d ''root_cause'' = Some (JStr s)))
            \<and> (map_of d ''severity'' = None \<or> (\<exists>s. map_of d ''severity'' = Some (JStr s)))
            \<and> (map_of d ''impact_assessment'' = None
                 \<or> (\<exists>s. map_of d ''impact_assessment'' = Some (JStr s)))
            \<and> (map_of d ''confidence'' = None
                 \<or> (\<exists>v. map_of d ''confidence'' = Some v \<and> as_float v \<noteq> None))
            \<and> generate_fix (fix_generator a) (dict_get d ''root_cause'' (JStr ''Unknown''))
                  (req_service_name rq) (dict_get d ''severity'' (JStr ''medium''))
                = Inr fix_code
            \<and> map_of fix_code ''fix_details'' = Some (JObj fd)
            \<and> map_of fix_code ''code'' = Some (JStr cd)"
  then have call: "reasoning_call lib a rq = Inr content"
    and t_rc: "map_of d ''root_cause'' = None \<or> (\<exists>s. map_of d ''root_cause'' = Some (JStr s))"
    and t_sv: "map_of d ''severity'' = None \<or> (\<exists>s. map_of d ''severity'' = Some (JStr s))"
    and t_im: "map_of d ''impact_assessment'' = None
               \<or> (\<exists>s. map_of d ''impact_assessment'' = Some (JStr s))"
    and t_cf: "map_of d ''confidence'' = None
               \<or> (\<exists>v. map_of d ''confidence'' = Some v \<and> as_float v \<noteq> None)"
    and gen: "generate_fix (fix_generator a) (dict_get d ''root_cause'' (JStr ''Unknown''))
                (req_service_name rq) (dict_get d ''severity'' (JStr ''medium''))
              = Inr fix_code"
    and fd: "map_of fix_code ''fix_details'' = Some (JObj fd)"
    and cd: "map_of fix_code ''code'' = Some (JStr cd)"
    by blast+
  from pipeline_of_reply [OF call loads t_rc t_sv t_im t_cf gen fd cd, of tasks]
  obtain resp tasks' where
    run: "analyze_incident lib a rq tasks = (Inr resp, tasks')"
    and rc: "resp_root_cause resp
             = (case map_of d ''root_cause'' of None \<Rightarrow> ''Unknown'' | Some v \<Rightarrow> the (as_str v))"
    and sv: "resp_severity resp
             = (case map_of d ''severity'' of None \<Rightarrow> ''medium'' | Some v \<Rightarrow> the (as_str v))"
    and cf: "resp_confidence resp
             = (case map_of d ''confidence'' of None \<Rightarrow> 0 | Some v \<Rightarrow> the (as_float v))"
    by (elim exE conjE)
  have "(map_of d ''root_cause'' = None \<longrightarrow> resp_root_cause resp = ''Unknown'')
      \<and> (map_of d ''severity'' = None \<longrightarrow> resp_severity resp = ''medium'')
      \<and> (map_of d ''confidence'' = None \<longrightarrow> resp_confidence resp = 0)"
    using rc sv cf by simp
  with run have both: "analyze_incident lib a rq tasks = (Inr resp, tasks')
      \<and> (map_of d ''root_cause'' = None \<longrightarrow> resp_root_cause resp = ''Unknown'')
      \<and> (map_of d ''severity'' = None \<longrightarrow> resp_severity resp = ''medium'')
      \<and> (map_of d ''confidence'' = None \<longrightarrow> resp_confidence resp = 0)"
    by (rule conjI)
  show "\<exists>resp tasks'. analyze_incident lib a rq tasks = (Inr resp, tasks')
                 \<and> (map_of d ''root_cause'' = None \<longrightarrow> resp_root_cause resp = ''Unknown'')
                 \<and> (map_of d ''severity'' = None \<longrightarrow> resp_severity resp = ''medium'')
                 \<and> (map_of d ''confidence'' = None \<longrightarrow> resp_confidence resp = 0)"
    by (rule exI, rule exI, rule both)
qed

theorem validating_defaults_missing_fields_witness:
  "json_loads demo_lib reply_no_confidence
     = Inr (JObj [(''root_cause'', JStr ''Memory leak''), (''severity'', JStr ''high'')]) \<and>
   chat_completions_create (agent_replying reply_no_confidence)
       (deployment (agent_replying reply_no_confidence))
       (rca_messages demo_lib ''2024-01-21T14:31:00'' ''INC-2024-001'' [] [] None None)
     = Inr reply_no_confidence \<and>
   reasoning_call demo_lib (app_with (agent_replying reply_no_confidence)) request_A
     = Inr reply_no_confidence \<and>
   map_of [(''root_cause'', JStr ''Memory leak''), (''severity'', JStr ''high'')]
     ''confidence'' = None \<and>
   (\<exists>r. analyze demo_lib (agent_replying reply_no_confidence)
          ''2024-01-21T14:31:00'' ''INC-2024-001'' [] [] None None = Inr r \<and>
        rca_confidence r = JFloat 0.0) \<and>
   (\<exists>resp tasks'.
      analyze_incident demo_lib (app_with (agent_replying reply_no_confidence)) request_A []
        = (Inr resp, tasks') \<and>
      resp_confidence resp = 0)"
proof -
  let ?ag = "agent_replying reply_no_confidence"
  let ?a = "app_with ?ag"
  let ?d = "[(''root_cause'', JStr ''Memory leak''), (''severity'', JStr ''high'')]"
  have loads: "json_loads demo_lib reply_no_confidence = Inr (JObj ?d)"
    by (rule demo_loads)
  have chat: "chat_completions_create ?ag (deployment ?ag)
                (rca_messages demo_lib ''2024-01-21T14:31:00'' ''INC-2024-001'' [] [] None None)
              = Inr reply_no_confidence"
    by (simp add: agent_replying_def)
  have call: "reasoning_call demo_lib ?a request_A = Inr reply_no_confidence"
    by (rule demo_call)
  have missing: "map_of ?d ''confidence'' = None" by simp
  have typed:
    "reasoning_call demo_lib ?a request_A = Inr reply_no_confidence
     \<and> (map_of ?d ''root_cause'' = None \<or> (\<exists>s. map_of ?d ''root_cause'' = Some (JStr s)))
     \<and> (map_of ?d ''severity'' = None \<or> (\<exists>s. map_of ?d ''severity'' = Some (JStr s)))
     \<and> (map_of ?d ''impact_assessment'' = None
          \<or> (\<exists>s. map_of ?d ''impact_assessment'' = Some (JStr s)))
     \<and> (map_of ?d ''confidence'' = None
          \<or> (\<exists>v. map_of ?d ''confidence'' = Some v \<and> as_float v \<noteq> None))
     \<and> generate_fix (fix_generator ?a) (dict_get ?d ''root_cause'' (JStr ''Unknown''))
           (req_service_name request_A) (dict_get ?d ''severity'' (JStr ''medium''))
         = Inr demo_fix
     \<and> map_of demo_fix ''fix_details'' = Some (JObj [(''type'', JStr ''restart'')])
     \<and> map_of demo_fix ''code''
         = Some (JStr ''kubectl rollout restart deployment/payment-service'')"
    using call demo_generate_fix [of ?ag] demo_fix_keys
    by simp
  note inst = validating_defaults_missing_fields [OF loads,
      of ?ag "''2024-01-21T14:31:00''" "''INC-2024-001''" "[]" "[]" None None ?a request_A
         demo_fix "[(''type'', JStr ''restart'')]"
         "''kubectl rollout restart deployment/payment-service''" "[]"]
  from mp [OF inst [THEN conjunct1] chat] obtain r where
    r: "analyze demo_lib ?ag ''2024-01-21T14:31:00'' ''INC-2024-001'' [] [] None None = Inr r"
    and rdef: "map_of ?d ''confidence'' = None \<longrightarrow> rca_confidence r = JFloat 0.0"
    by (elim exE conjE)
  from rdef missing have rc: "rca_confidence r = JFloat 0.0" by (rule mp)
  from mp [OF inst [THEN conjunct2] typed] obtain resp tasks' where
    run: "analyze_incident demo_lib ?a request_A [] = (Inr resp, tasks')"
    and cdef: "map_of ?d ''confidence'' = None \<longrightarrow> resp_confidence resp = 0"
    by (elim exE conjE)
  from cdef missing have c: "resp_confidence resp = 0" by (rule mp)
  from r rc have ex1: "\<exists>r. analyze demo_lib ?ag ''2024-01-21T14:31:00''
                          ''INC-2024-001'' [] [] None None = Inr r \<and>
                        rca_confidence r = JFloat 0.0"
    by (intro exI conjI)
  from run c have ex2: "\<exists>resp tasks'. analyze_incident demo_lib ?a request_A []
                          = (Inr resp, tasks') \<and> resp_confidence resp = 0"
    by (intro exI conjI)
  from loads chat call missing ex1 ex2 show ?thesis by (intro conjI)
qed

text \<open>
  C10, as the code has it: when the reply parses to a JSON object, \<^verbatim>\<open>RCAAgent.analyze\<close>
  returns the reply's \<^verbatim>\<open>severity\<close> and \<^verbatim>\<open>confidence\<close> exactly as they are, whatever JSON
  values they are. A severity that is any string and a confidence that is any float, or
  any int of magnitude up to \<open>2 ^ 53\<close>, then reach the response of the pipeline unchanged
  (under the same provisos on the other fields and on the fix generator as above):
  nothing checks the enumeration or the interval [0, 1]. A confidence that is an int of
  magnitude \<open>2 ^ 1024\<close> or more does not reach the response: the request fails with
  status 500.
\<close>

theorem severity_and_confidence_pass_through:
  assumes loads: "json_loads lib content = Inr (JObj d)"
    and sev: "map_of d ''severity'' = Some s"
    and conf: "map_of d ''confidence'' = Some c"
  shows "(chat_completions_create ag (deployment ag)
            (rca_messages lib now iid m logs tr si) = Inr content
          \<longrightarrow> (\<exists>r. analyze lib ag now iid m logs tr si = Inr r
                 \<and> rca_severity r = s \<and> rca_confidence r = c))
       \<and> (reasoning_call lib a rq = Inr content
            \<and> as_str s = Some sv \<and> as_float c = Some cf
            \<and> (map_of d ''root_cause'' = None \<or> (\<exists>x. map_of d ''root_cause'' = Some (JStr x)))
            \<and> (map_of d ''impact_assessment'' = None
                 \<or> (\<exists>x. map_of d ''impact_assessment'' = Some (JStr x)))
            \<and> generate_fix (fix_generator a) (dict_get d ''root_cause'' (JStr ''Unknown''))
                  (req_service_name rq) s = Inr fix_code
            \<and> map_of fix_code ''fix_details'' = Some (JObj fd)
            \<and> map_of fix_code ''code'' = Some (JStr cd)
          \<longrightarrow> (\<exists>resp tasks'. analyze_incident lib a rq tasks = (Inr resp, tasks')
                 \<and> resp_severity resp = sv \<and> resp_confidence resp = cf))
       \<and> (reasoning_call lib a rq = Inr content \<and> float_overflows c
          \<longrightarrow> (\<exists>detail tasks'. analyze_incident lib a rq tasks
                                = (Inl (HTTPException 500 detail), tasks')))"
proof (intro conjI impI)
  assume "chat_completions_create ag (deployment ag)
            (rca_messages lib now iid m logs tr si) = Inr content"
  then have "analyze lib ag now iid m logs tr si = rca_of_reply (JObj d)"
    using loads by (rule analyze_of_reply)
  then show "\<exists>r. analyze lib ag now iid m logs tr si = Inr r
               \<and> rca_severity r = s \<and> rca_confidence r = c"
    using sev conf by (simp add: rca_of_reply_obj dict_get_def)
next
  assume h: "reasoning_call lib a rq = Inr content
            \<and> as_str s = Some sv \<and> as_float c = Some cf
            \<and> (map_of d ''root_cause'' = None \<or> (\<exists>x. map_of d ''root_cause'' = Some (JStr x)))
            \<and> (map_of d ''impact_assessment'' = None
                 \<or> (\<exists>x. map_of d ''impact_assessment'' = Some (JStr x)))
            \<and> generate_fix (fix_generator a) (dict_get d ''root_cause'' (JStr ''Unknown''))
                  (req_service_name rq) s = Inr fix_code
            \<and> map_of fix_code ''fix_details'' = Some (JObj fd)
            \<and> map_of fix_code ''code'' = Some (JStr cd)"
  then have call: "reasoning_call lib a rq = Inr content"
    and s_str: "as_str s = Some sv" and c_num: "as_float c = Some cf"
    and t_rc: "map_of d ''root_cause'' = None \<or> (\<exists>x. map_of d ''root_cause'' = Some (JStr x))"
    and t_im: "map_of d ''impact_assessment'' = None
               \<or> (\<exists>x. map_of d ''impact_assessment'' = Some (JStr x))"
    and gen0: "generate_fix (fix_generator a) (dict_get d ''root_cause'' (JStr ''Unknown''))
                 (req_service_name rq) s = Inr fix_code"
    and fd: "map_of fix_code ''fix_details'' = Some (JObj fd)"
    and cd: "map_of fix_code ''code'' = Some (JStr cd)"
    by blast+
  from s_str have "s = JStr sv" by (cases s) (simp_all add: as_str_def)
  with sev have t_sv: "map_of d ''severity'' = None \<or> (\<exists>x. map_of d ''severity'' = Some (JStr x))"
    by simp
  from conf c_num have t_cf: "map_of d ''confidence'' = None
               \<or> (\<exists>v. map_of d ''confidence'' = Some v \<and> as_float v \<noteq> None)"
    by simp
  from sev have "dict_get d ''severity'' (JStr ''medium'') = s" by (simp add: dict_get_def)
  with gen0 have gen: "generate_fix (fix_generator a)
                         (dict_get d ''root_cause'' (JStr ''Unknown'')) (req_service_name rq)
                         (dict_get d ''severity'' (JStr ''medium'')) = Inr fix_code"
    by simp
  from pipeline_of_reply [OF call loads t_rc t_sv t_im t_cf gen fd cd, of tasks]
  obtain resp tasks' where
    run: "analyze_incident lib a rq tasks = (Inr resp, tasks')"
    and sv': "resp_severity resp
             = (case map_of d ''severity'' of None \<Rightarrow> ''medium'' | Some v \<Rightarrow> the (as_str v))"
    and cf': "resp_confidence resp
             = (case map_of d ''confidence'' of None \<Rightarrow> 0 | Some v \<Rightarrow> the (as_float v))"
    by (elim exE conjE)
  have "resp_severity resp = sv" using sv' sev s_str by simp
  moreover have "resp_confidence resp = cf" using cf' conf c_num by simp
  ultimately have both: "analyze_incident lib a rq tasks = (Inr resp, tasks')
                 \<and> resp_severity resp = sv \<and> resp_confidence resp = cf"
    using run by simp
  show "\<exists>resp tasks'. analyze_incident lib a rq tasks = (Inr resp, tasks')
                 \<and> resp_severity resp = sv \<and> resp_confidence resp = cf"
    by (rule exI, rule exI, rule both)
next
  assume "reasoning_call lib a rq = Inr content \<and> float_overflows c"
  then have call: "reasoning_call lib a rq = Inr content" and big: "float_overflows c"
    by blast+
  let ?rca = "\<lparr>rca_root_cause = dict_get d ''root_cause'' (JStr ''Unknown''),
               rca_severity = dict_get d ''severity'' (JStr ''medium''),
               rca_confidence = dict_get d ''confidence'' (JFloat 0.0),
               rca_impact = dict_get d ''impact_assessment'' (JStr ''Unknown impact''),
               rca_contributing_factors = dict_get d ''contributing_factors'' (JArr []),
               rca_timeline = dict_get d ''timeline'' (JArr []),
               rca_recommendations = dict_get d ''recommendations'' (JArr [])\<rparr>"
  have an: "rca_of lib a rq = Inr ?rca"
    using call loads by (simp add: rca_of_reply_text rca_of_reply_obj)
  have "float_overflows (rca_confidence ?rca)"
    using big conf by (simp add: dict_get_def)
  with an show "\<exists>detail tasks'. analyze_incident lib a rq tasks
                                = (Inl (HTTPException 500 detail), tasks')"
    by (rule analyze_incident_overflow)
qed

theorem severity_and_confidence_pass_through_witness:
  "json_loads demo_lib reply_unchecked
     = Inr (JObj [(''root_cause'', JStr ''Disk full''), (''severity'', JStr ''catastrophic''),
                  (''confidence'', JFloat 5.0)]) \<and>
   chat_completions_create (agent_replying reply_unchecked)
       (deployment (agent_replying reply_unchecked))
       (rca_messages demo_lib ''2024-01-21T14:31:00'' ''INC-2024-001'' [] [] None None)
     = Inr reply_unchecked \<and>
   reasoning_call demo_lib (app_with (agent_replying reply_unchecked)) request_A
     = Inr reply_unchecked \<and>
   (\<exists>r. analyze demo_lib (agent_replying reply_unchecked)
          ''2024-01-21T14:31:00'' ''INC-2024-001'' [] [] None None = Inr r \<and>
        rca_severity r = JStr ''catastrophic'' \<and> rca_confidence r = JFloat 5.0) \<and>
   (\<exists>resp tasks'.
      analyze_incident demo_lib (app_with (agent_replying reply_unchecked)) request_A []
        = (Inr resp, tasks') \<and>
      resp_severity resp = ''catastrophic'' \<and> resp_confidence resp = 5) \<and>
   reasoning_call demo_lib (app_with (agent_replying reply_negative)) request_A
     = Inr reply_negative \<and>
   as_float (JInt (- 1)) = Some (- 1) \<and>
   (\<exists>resp tasks'.
      analyze_incident demo_lib (app_with (agent_replying reply_negative)) request_A []
        = (Inr resp, tasks') \<and>
      resp_severity resp = ''low'' \<and> resp_confidence resp = - 1) \<and>
   reasoning_call demo_lib (app_with (agent_replying reply_huge)) request_A
     = Inr reply_huge \<and>
   huge_int = 10 ^ 400 \<and> float_overflows (JInt huge_int) \<and>
   (\<exists>detail tasks'.
      analyze_incident demo_lib (app_with (agent_replying reply_huge)) request_A []
        = (Inl (HTTPException 500 detail), tasks'))"
proof -
  let ?ag = "agent_replying reply_unchecked"
  let ?a = "app_with ?ag"
  let ?d = "[(''root_cause'', JStr ''Disk full''), (''severity'', JStr ''catastrophic''),
             (''confidence'', JFloat 5.0)]"
  let ?b = "app_with (agent_replying reply_negative)"
  let ?e = "[(''severity'', JStr ''low''), (''confidence'', JInt (- 1))]"
  let ?h = "app_with (agent_replying reply_huge)"
  let ?f = "[(''severity'', JStr ''low''), (''confidence'', JInt huge_int)]"
  have loads: "json_loads demo_lib reply_unchecked = Inr (JObj ?d)"
    by (rule demo_loads)
  have chat: "chat_completions_create ?ag (deployment ?ag)
                (rca_messages demo_lib ''2024-01-21T14:31:00'' ''INC-2024-001'' [] [] None None)
              = Inr reply_unchecked"
    by (simp add: agent_replying_def)
  have call: "reasoning_call demo_lib ?a request_A = Inr reply_unchecked"
    by (rule demo_call)
  have sev: "map_of ?d ''severity'' = Some (JStr ''catastrophic'')"
    and conf: "map_of ?d ''confidence'' = Some (JFloat 5.0)"
    by simp_all
  have rest:
    "reasoning_call demo_lib ?a request_A = Inr reply_unchecked
     \<and> as_str (JStr ''catastrophic'') = Some ''catastrophic'' \<and> as_float (JFloat 5.0) = Some 5
     \<and> (map_of ?d ''root_cause'' = None \<or> (\<exists>x. map_of ?d ''root_cause'' = Some (JStr x)))
     \<and> (map_of ?d ''impact_assessment'' = None
          \<or> (\<exists>x. map_of ?d ''impact_assessment'' = Some (JStr x)))
     \<and> generate_fix (fix_generator ?a) (dict_get ?d ''root_cause'' (JStr ''Unknown''))
           (req_service_name request_A) (JStr ''catastrophic'') = Inr demo_fix
     \<and> map_of demo_fix ''fix_details'' = Some (JObj [(''type'', JStr ''restart'')])
     \<and> map_of demo_fix ''code''
         = Some (JStr ''kubectl rollout restart deployment/payment-service'')"
    using call demo_generate_fix [of ?ag] demo_fix_keys
    by (simp add: as_str_def as_float_def)
  note inst = severity_and_confidence_pass_through [OF loads sev conf,
      of ?ag "''2024-01-21T14:31:00''" "''INC-2024-001''" "[]" "[]" None None ?a request_A
         "''catastrophic''" 5 demo_fix "[(''type'', JStr ''restart'')]"
         "''kubectl rollout restart deployment/payment-service''" "[]"]
  have ex1:
    "\<exists>r. analyze demo_lib ?ag ''2024-01-21T14:31:00'' ''INC-2024-001'' [] [] None None
           = Inr r \<and>
         rca_severity r = JStr ''catastrophic'' \<and> rca_confidence r = JFloat 5.0"
    by (rule mp [OF inst [THEN conjunct1] chat])
  have ex2:
    "\<exists>resp tasks'. analyze_incident demo_lib ?a request_A [] = (Inr resp, tasks') \<and>
       resp_severity resp = ''catastrophic'' \<and> resp_confidence resp = 5"
    by (rule mp [OF inst [THEN conjunct2, THEN conjunct1] rest])
  have call': "reasoning_call demo_lib ?b request_A = Inr reply_negative"
    by (rule demo_call)
  have loads': "json_loads demo_lib reply_negative = Inr (JObj ?e)"
    by (rule demo_loads)
  have sev': "map_of ?e ''severity'' = Some (JStr ''low'')"
    and conf': "map_of ?e ''confidence'' = Some (JInt (- 1))"
    by simp_all
  have neg: "as_float (JInt (- 1)) = Some (- 1)"
    by (simp add: as_float_def)
  have rest':
    "reasoning_call demo_lib ?b request_A = Inr reply_negative
     \<and> as_str (JStr ''low'') = Some ''low'' \<and> as_float (JInt (- 1)) = Some (- 1)
     \<and> (map_of ?e ''root_cause'' = None \<or> (\<exists>x. map_of ?e ''root_cause'' = Some (JStr x)))
     \<and> (map_of ?e ''impact_assessment'' = None
          \<or> (\<exists>x. map_of ?e ''impact_assessment'' = Some (JStr x)))
     \<and> generate_fix (fix_generator ?b) (dict_get ?e ''root_cause'' (JStr ''Unknown''))
           (req_service_name request_A) (JStr ''low'') = Inr demo_fix
     \<and> map_of demo_fix ''fix_details'' = Some (JObj [(''type'', JStr ''restart'')])
     \<and> map_of demo_fix ''code''
         = Some (JStr ''kubectl rollout restart deployment/payment-service'')"
    using call' neg demo_generate_fix [of "agent_replying reply_negative"] demo_fix_keys
    by (simp add: as_str_def)
  note inst' = severity_and_confidence_pass_through [OF loads' sev' conf',
      of ?ag "''2024-01-21T14:31:00''" "''INC-2024-001''" "[]" "[]" None None ?b request_A
         "''low''" "- 1" demo_fix "[(''type'', JStr ''restart'')]"
         "''kubectl rollout restart deployment/payment-service''" "[]"]
  have ex3:
    "\<exists>resp tasks'. analyze_incident demo_lib ?b request_A [] = (Inr resp, tasks') \<and>
       resp_severity resp = ''low'' \<and> resp_confidence resp = - 1"
    by (rule mp [OF inst' [THEN conjunct2, THEN conjunct1] rest'])
  have call'': "reasoning_call demo_lib ?h request_A = Inr reply_huge"
    by (rule demo_call)
  have loads'': "json_loads demo_lib reply_huge = Inr (JObj ?f)"
    by (rule demo_loads)
  have sev'': "map_of ?f ''severity'' = Some (JStr ''low'')"
    and conf'': "map_of ?f ''confidence'' = Some (JInt huge_int)"
    by simp_all
  note inst'' = severity_and_confidence_pass_through [OF loads'' sev'' conf'',
      of ?ag "''2024-01-21T14:31:00''" "''INC-2024-001''" "[]" "[]" None None ?h request_A
         "''low''" 0 demo_fix "[]" "[]" "[]"]
  have ex4:
    "\<exists>detail tasks'. analyze_incident demo_lib ?h request_A []
                      = (Inl (HTTPException 500 detail), tasks')"
    by (rule mp [OF inst'' [THEN conjunct2, THEN conjunct2] conjI [OF call'' huge_overflows]])
  from loads chat call ex1 ex2 call' neg ex3 call'' huge_int_def huge_overflows ex4
  show ?thesis by (intro conjI)
qed

text \<open>
  C10, as the claim states it, fails: not every numeric confidence passes through. A reply
  whose confidence is the integer \<open>10 ^ 400\<close> is returned unchanged by
  \<^verbatim>\<open>RCAAgent.analyze\<close>, but no float holds it, the response model rejects it, and
  \<^verbatim>\<open>analyze_incident\<close> raises \<^verbatim>\<open>HTTPException\<close> with status 500 instead of a response.
\<close>

theorem huge_confidence_does_not_pass_through:
  "huge_int = 10 ^ 400 \<and>
   json_loads demo_lib reply_huge
     = Inr (JObj [(''severity'', JStr ''low''), (''confidence'', JInt huge_int)]) \<and>
   analyze demo_lib (agent_replying reply_huge) ''2024-01-21T14:31:00'' ''INC-2024-001''
       [] [] None None
     = Inr \<lparr>rca_root_cause = JStr ''Unknown'', rca_severity = JStr ''low'',
            rca_confidence = JInt huge_int, rca_impact = JStr ''Unknown impact'',
            rca_contributing_factors = JArr [], rca_timeline = JArr [],
            rca_recommendations = JArr []\<rparr> \<and>
   fst (analyze_incident demo_lib (app_with (agent_replying reply_huge)) request_A [])
     = Inl (HTTPException 500
              ''Analysis failed: 1 validation error for IncidentAnalysisResponse'')"
proof -
  let ?h = "app_with (agent_replying reply_huge)"
  let ?rca = "\<lparr>rca_root_cause = JStr ''Unknown'', rca_severity = JStr ''low'',
               rca_confidence = JInt huge_int, rca_impact = JStr ''Unknown impact'',
               rca_contributing_factors = JArr [], rca_timeline = JArr [],
               rca_recommendations = JArr []\<rparr>"
  have loads: "json_loads demo_lib reply_huge
     = Inr (JObj [(''severity'', JStr ''low''), (''confidence'', JInt huge_int)])"
    by (rule demo_loads)
  have reply: "rca_of_reply (JObj [(''severity'', JStr ''low''),
                                   (''confidence'', JInt huge_int)]) = Inr ?rca"
    by (simp add: rca_of_reply_def dict_get_def)
  have an: "analyze demo_lib (agent_replying reply_huge) ''2024-01-21T14:31:00''
              ''INC-2024-001'' [] [] None None = Inr ?rca"
    by (simp add: analyze_def agent_replying_def loads reply)
  have rca: "rca_of demo_lib ?h request_A = Inr ?rca"
    by (simp add: rca_of_reply_text [OF demo_call] loads reply)
  have init: "IncidentAnalysisResponse_init coerce (response_error ?h) iid rc sv
                (JInt huge_int) im fx cd sim tl
              = Inl (PyException ''ValidationError''
                       ''1 validation error for IncidentAnalysisResponse'')"
    for coerce iid rc sv im fx cd sim tl
    using huge_overflows
    by (simp add: IncidentAnalysisResponse_init_def Let_def app_with_def)
  have "fst (analyze_incident demo_lib ?h request_A [])
        = Inl (HTTPException 500
                 ''Analysis failed: 1 validation error for IncidentAnalysisResponse'')"
    by (simp add: analyze_incident_def Let_def rca demo_generate_fix demo_fix_subscripts
          init analysis_failed_def)
  with huge_int_def loads an show ?thesis by (intro conjI)
qed

end
